theory Spec2Isabelle
  imports Complex_Main "HOL-Library.Word" "HOL-Library.AList" "HOL-Library.Sublist"
begin

unbundle bit_operations_syntax

section \<open>Kasa wire cipher (KasaDevice.encrypt / KasaDevice.decrypt)\<close>

text \<open>
  A JavaScript string is a sequence of 16-bit code units (\<open>charCodeAt\<close>,
  \<open>String.fromCharCode\<close>); a Node \<open>Buffer\<close> is a sequence of bytes, and storing a
  number into it keeps the low 8 bits. A byte sequence, as a string, is a string whose
  code units are all below 256: \<open>map ucast bs\<close> for a byte list \<open>bs\<close>.
\<close>

type_synonym byte = "8 word"
type_synonym code_unit = "16 word"

datatype error = TypeError | RangeError | Error string

text \<open>
  The loop of \<open>encrypt\<close>: \<open>encrypted = buffer.charCodeAt(i) ^ key; key = encrypted;
  result[i + 4] = encrypted\<close>. The key keeps the whole XOR; the buffer keeps its low byte.
\<close>

fun encrypt_loop :: "code_unit \<Rightarrow> code_unit list \<Rightarrow> byte list" where
  "encrypt_loop key [] = []"
| "encrypt_loop key (c # cs) =
     (let encrypted = c XOR key in ucast encrypted # encrypt_loop encrypted cs)"

text \<open>
  \<open>writeUInt32BE(length, 0)\<close>: four bytes, most significant first. Lengths and the
  header's value are JavaScript numbers: integers here.
\<close>

definition writeUInt32BE :: "int \<Rightarrow> byte list" where
  "writeUInt32BE n =
     [word_of_int (n div 2 ^ 24), word_of_int (n div 2 ^ 16), word_of_int (n div 2 ^ 8),
      word_of_int n]"

text \<open>
  \<open>encrypt\<close> allocates \<open>length + 4\<close> bytes, writes the header and the payload.
  Node's \<open>writeUInt32BE\<close> throws a range error for a value above \<open>2^32 - 1\<close>.
\<close>

definition encrypt :: "code_unit list \<Rightarrow> error + byte list" where
  "encrypt buffer =
     (if 2 ^ 32 \<le> int (length buffer) then Inl RangeError
      else Inr (writeUInt32BE (int (length buffer)) @ encrypt_loop 171 buffer))"

text \<open>\<open>readUInt32BE(0)\<close>; it throws a range error on a buffer shorter than 4 bytes.\<close>

fun readUInt32BE :: "byte list \<Rightarrow> error + int" where
  "readUInt32BE (b0 # b1 # b2 # b3 # bs) =
     Inr (uint b0 * 2 ^ 24 + uint b1 * 2 ^ 16 + uint b2 * 2 ^ 8 + uint b3)"
| "readUInt32BE bs = Inl RangeError"

text \<open>
  The loop of \<open>decrypt\<close>: \<open>decrypted = buffer[i] ^ key; key = buffer[i];
  result += String.fromCharCode(decrypted)\<close>.
\<close>

fun decrypt_loop :: "byte \<Rightarrow> byte list \<Rightarrow> code_unit list" where
  "decrypt_loop key [] = []"
| "decrypt_loop key (b # bs) = ucast (b XOR key) # decrypt_loop b bs"

text \<open>
  \<open>start = buffer.length > 4 && buffer.readUInt32BE(0) === buffer.length - 4 ? 4 : 0\<close>:
  the header is skipped only on a buffer of more than 4 bytes (\<open>&&\<close> does not read the
  header otherwise).
\<close>

definition decrypt_start :: "byte list \<Rightarrow> nat" where
  "decrypt_start buffer =
     (if 4 < length buffer \<and> readUInt32BE buffer = Inr (int (length buffer) - 4) then 4
      else 0)"

definition decrypt :: "byte list \<Rightarrow> code_unit list" where
  "decrypt buffer = decrypt_loop 171 (drop (decrypt_start buffer) buffer)"

text \<open>\<open>decrypt(encrypt(S))\<close>, an error of \<open>encrypt\<close> passed on.\<close>

definition roundtrip :: "code_unit list \<Rightarrow> error + code_unit list" where
  "roundtrip s = (case encrypt s of Inl e \<Rightarrow> Inl e | Inr b \<Rightarrow> Inr (decrypt b))"

section \<open>JavaScript values and promises\<close>

text \<open>
  What \<open>JSON.parse\<close> returns, and \<open>undefined\<close>. A number is a real: every
  number a JSON text can carry is one, the fractions included. An object is its
  properties in order, looked up by \<open>map_of\<close>.
\<close>

datatype jv =
    Undefined
  | JNull
  | JBool bool
  | JNum real
  | JStr string
  | JArr "jv list"
  | JObj "(string \<times> jv) list"

text \<open>
  \<open>v.k\<close>: a type error on \<open>undefined\<close> and \<open>null\<close>. The keys the adapter reads
  (\<open>system\<close>, \<open>get_sysinfo\<close>, \<open>relay_state\<close>, \<open>err_code\<close>, ...) are no property
  of a boolean, a number, a string or an array, so the read gives \<open>undefined\<close> there.
\<close>

fun get_prop :: "jv \<Rightarrow> string \<Rightarrow> error + jv" where
  "get_prop Undefined k = Inl TypeError"
| "get_prop JNull k = Inl TypeError"
| "get_prop (JObj kvs) k = Inr (case map_of kvs k of None \<Rightarrow> Undefined | Some v \<Rightarrow> v)"
| "get_prop v k = Inr Undefined"

text \<open>
  \<open>v?.k\<close>: \<open>undefined\<close> on \<open>undefined\<close> and \<open>null\<close>. It is also what \<open>v.k\<close> gives
  on a value already known to be truthy.
\<close>

fun opt_prop :: "jv \<Rightarrow> string \<Rightarrow> jv" where
  "opt_prop (JObj kvs) k = (case map_of kvs k of None \<Rightarrow> Undefined | Some v \<Rightarrow> v)"
| "opt_prop v k = Undefined"

fun truthy :: "jv \<Rightarrow> bool" where
  "truthy Undefined = False"
| "truthy JNull = False"
| "truthy (JBool b) = b"
| "truthy (JNum n) = (n \<noteq> 0)"
| "truthy (JStr s) = (s \<noteq> [])"
| "truthy v = True"

text \<open>
  An awaited promise: it resolves, it rejects, or it never settles. \<open>sendCommand\<close>
  settles on the socket's \<open>data\<close>, \<open>error\<close> and \<open>timeout\<close> events only; a peer that
  closes the connection without sending leaves the promise pending.
\<close>

datatype 'a res = Pending | Rejected error | Resolved 'a

text \<open>
  One exchange is the address and the command object handed to \<open>sendCommand\<close>. The
  network, with the text coding of the command and of the reply, is the environment: it
  answers an exchange knowing the exchanges made before. \<open>sent\<close> is the log of exchanges.
\<close>

type_synonym exchange = "string \<times> jv"
type_synonym network = "exchange list \<Rightarrow> exchange \<Rightarrow> jv res"
type_synonym 'a io = "exchange list \<Rightarrow> 'a res \<times> exchange list"

definition io_return :: "'a \<Rightarrow> 'a io" where
  "io_return x sent = (Resolved x, sent)"

definition io_throw :: "error \<Rightarrow> 'a io" where
  "io_throw e sent = (Rejected e, sent)"

text \<open>\<open>const x = await m; ...\<close>: a rejection or a pending promise ends the caller.\<close>

definition io_bind :: "'a io \<Rightarrow> ('a \<Rightarrow> 'b io) \<Rightarrow> 'b io" where
  "io_bind m f sent =
     (case m sent of
        (Resolved x, sent') \<Rightarrow> f x sent'
      | (Rejected e, sent') \<Rightarrow> (Rejected e, sent')
      | (Pending, sent') \<Rightarrow> (Pending, sent'))"

section \<open>Shared types (types.ts)\<close>

datatype DeviceCapability = CapPower | CapBrightness | CapColor | CapColorTemp

datatype device_type = Light | Plug | Switch

datatype device_brand = Kasa | Tuya | UnknownBrand

datatype power_state = PowerOn | PowerOff

record DeviceFeatures =
  is_dimmable :: "bool option"
  is_color :: "bool option"
  is_variable_color_temp :: "bool option"

text \<open>
  \<open>getState\<close> copies the numeric props from the reply as they are, so they are
  JavaScript values here; \<open>Undefined\<close> is an absent field.
\<close>

record DeviceState =
  power :: "power_state option"
  brightness :: jv
  color :: jv
  hue :: jv
  saturation :: jv
  color_temp :: jv

record Device =
  dev_id :: string
  mac :: "string option"
  name :: string
  dev_alias :: "string option"
  dev_type :: device_type
  brand :: device_brand
  model :: "string option"
  ip :: string
  capabilities :: "DeviceCapability list"
  room :: "string option"
  deviceId :: "string option"
  sw_ver :: "string option"
  hw_ver :: "string option"
  features :: "DeviceFeatures option"
  dev_note :: "string option"
  online :: "bool option"
  lastSeen :: "nat option"
  state :: "DeviceState option"

text \<open>
  The request body is not validated, so an action other than the three of the type can
  arrive: \<open>OtherAction\<close>.
\<close>

datatype action = On | Off | Toggle | OtherAction

record DeviceControlRequest =
  rq_action :: action
  rq_brightness :: "real option"
  rq_color :: "(real \<times> real \<times> real) option"
  rq_color_temp :: "real option"
  rq_hue :: "real option"
  rq_saturation :: "real option"
  rq_transition :: "real option"

section \<open>The adapter (class KasaDevice)\<close>

definition sendCommand :: "network \<Rightarrow> string \<Rightarrow> jv \<Rightarrow> jv io" where
  "sendCommand net addr command sent = (net sent (addr, command), sent @ [(addr, command)])"

definition get_sysinfo_cmd :: jv where
  "get_sysinfo_cmd = JObj [(''system'', JObj [(''get_sysinfo'', JObj [])])]"

definition relay_cmd :: "real \<Rightarrow> jv" where
  "relay_cmd n = JObj [(''system'', JObj [(''set_relay_state'', JObj [(''state'', JNum n)])])]"

definition light_cmd :: "(string \<times> jv) list \<Rightarrow> jv" where
  "light_cmd props =
     JObj [(''smartlife.iot.smartbulb.lightingservice'',
            JObj [(''transition_light_state'', JObj props)])]"

definition getDeviceInfo :: "network \<Rightarrow> string \<Rightarrow> jv io" where
  "getDeviceInfo net addr = sendCommand net addr get_sysinfo_cmd"

text \<open>\<open>response.system?.set_relay_state?.err_code !== 0\<close>\<close>

definition relay_failed :: "jv \<Rightarrow> error + bool" where
  "relay_failed response =
     (case get_prop response ''system'' of
        Inl e \<Rightarrow> Inl e
      | Inr sys \<Rightarrow> Inr (opt_prop (opt_prop sys ''set_relay_state'') ''err_code'' \<noteq> JNum 0))"

definition turnOn :: "network \<Rightarrow> string \<Rightarrow> unit io" where
  "turnOn net addr =
     io_bind (sendCommand net addr (relay_cmd 1)) (\<lambda>response.
       case relay_failed response of
         Inl e \<Rightarrow> io_throw e
       | Inr failed \<Rightarrow>
           if failed then io_throw (Error ''Failed to turn on device'') else io_return ())"

definition turnOff :: "network \<Rightarrow> string \<Rightarrow> unit io" where
  "turnOff net addr =
     io_bind (sendCommand net addr (relay_cmd 0)) (\<lambda>response.
       case relay_failed response of
         Inl e \<Rightarrow> io_throw e
       | Inr failed \<Rightarrow>
           if failed then io_throw (Error ''Failed to turn off device'') else io_return ())"

definition brightness_cmd :: "real \<Rightarrow> jv" where
  "brightness_cmd b = light_cmd [(''brightness'', JNum b), (''ignore_default'', JNum 1)]"

definition setBrightness :: "network \<Rightarrow> string \<Rightarrow> real \<Rightarrow> unit io" where
  "setBrightness net addr b =
     (if b < 0 \<or> b > 100 then io_throw (Error ''Brightness must be between 0 and 100'')
      else io_bind (sendCommand net addr (brightness_cmd b)) (\<lambda>response. io_return ()))"

text \<open>
  The optional brightness of \<open>setColor\<close> and \<open>setColorTemperature\<close>: checked, then added
  to the command as its last property.
\<close>

definition with_brightness ::
  "(string \<times> jv) list \<Rightarrow> real option \<Rightarrow> error + (string \<times> jv) list" where
  "with_brightness props brightness_opt =
     (case brightness_opt of
        None \<Rightarrow> Inr props
      | Some b \<Rightarrow>
          if b < 0 \<or> b > 100 then Inl (Error ''Brightness must be between 0 and 100'')
          else Inr (props @ [(''brightness'', JNum b)]))"

definition setColor ::
  "network \<Rightarrow> string \<Rightarrow> real \<Rightarrow> real \<Rightarrow> real option \<Rightarrow> unit io" where
  "setColor net addr h s brightness_opt =
     (if h < 0 \<or> h > 360 then io_throw (Error ''Hue must be between 0 and 360'')
      else if s < 0 \<or> s > 100 then io_throw (Error ''Saturation must be between 0 and 100'')
      else case with_brightness
                  [(''hue'', JNum h), (''saturation'', JNum s), (''ignore_default'', JNum 1)]
                  brightness_opt of
             Inl e \<Rightarrow> io_throw e
           | Inr props \<Rightarrow>
               io_bind (sendCommand net addr (light_cmd props)) (\<lambda>response. io_return ()))"

definition setColorTemperature ::
  "network \<Rightarrow> string \<Rightarrow> real \<Rightarrow> real option \<Rightarrow> unit io" where
  "setColorTemperature net addr colorTemp brightness_opt =
     (if colorTemp < 2500 \<or> colorTemp > 9000
      then io_throw (Error ''Color temperature must be between 2500K and 9000K'')
      else case with_brightness [(''color_temp'', JNum colorTemp), (''ignore_default'', JNum 1)]
                  brightness_opt of
             Inl e \<Rightarrow> io_throw e
           | Inr props \<Rightarrow>
               io_bind (sendCommand net addr (light_cmd props)) (\<lambda>response. io_return ()))"

text \<open>
  \<open>rgbToHsv\<close> computes in floating point; its hue and saturation are a parameter
  \<open>hsv\<close> of everything that reaches it.
\<close>

type_synonym hsv_conversion = "real \<Rightarrow> real \<Rightarrow> real \<Rightarrow> real \<times> real"

definition setRGBColor ::
  "hsv_conversion \<Rightarrow> network \<Rightarrow> string \<Rightarrow> real \<Rightarrow> real \<Rightarrow> real \<Rightarrow> real option
     \<Rightarrow> unit io" where
  "setRGBColor hsv net addr r g b brightness_opt =
     (if r < 0 \<or> r > 255 \<or> g < 0 \<or> g > 255 \<or> b < 0 \<or> b > 255
      then io_throw (Error ''RGB values must be between 0 and 255'')
      else case hsv r g b of (h, s) \<Rightarrow> setColor net addr h s brightness_opt)"

text \<open>
  Toggle reads \<open>info.system?.get_sysinfo?.relay_state ||
  info.system?.get_sysinfo?.light_state?.on_off\<close>.
\<close>

definition currentState :: "jv \<Rightarrow> error + jv" where
  "currentState info =
     (case get_prop info ''system'' of
        Inl e \<Rightarrow> Inl e
      | Inr sys \<Rightarrow>
          (let sysinfo = opt_prop sys ''get_sysinfo'';
               relay = opt_prop sysinfo ''relay_state''
           in Inr (if truthy relay then relay
                   else opt_prop (opt_prop sysinfo ''light_state'') ''on_off'')))"

text \<open>The settings after the power switch: the first of the four branches that applies.\<close>

definition apply_settings ::
  "hsv_conversion \<Rightarrow> network \<Rightarrow> string \<Rightarrow> DeviceControlRequest \<Rightarrow> unit io" where
  "apply_settings hsv net addr request =
     (case rq_color request of
        Some (r, g, b) \<Rightarrow> setRGBColor hsv net addr r g b (rq_brightness request)
      | None \<Rightarrow>
          if rq_hue request \<noteq> None \<and> rq_saturation request \<noteq> None
          then setColor net addr (the (rq_hue request)) (the (rq_saturation request))
                 (rq_brightness request)
          else if rq_color_temp request \<noteq> None \<and> rq_color_temp request \<noteq> Some 0
          then setColorTemperature net addr (the (rq_color_temp request)) (rq_brightness request)
          else case rq_brightness request of
                 Some b \<Rightarrow> setBrightness net addr b
               | None \<Rightarrow> io_return ())"

text \<open>
  The \<open>switch\<close> of \<open>control\<close>: its result says whether control goes on to the settings
  (\<open>break\<close>) or is over (\<open>return\<close>).
\<close>

definition power_step :: "network \<Rightarrow> string \<Rightarrow> action \<Rightarrow> bool io" where
  "power_step net addr act =
     (case act of
        On \<Rightarrow> io_bind (turnOn net addr) (\<lambda>u. io_return True)
      | Off \<Rightarrow> io_bind (turnOff net addr) (\<lambda>u. io_return False)
      | Toggle \<Rightarrow>
          io_bind (getDeviceInfo net addr) (\<lambda>info.
            case currentState info of
              Inl e \<Rightarrow> io_throw e
            | Inr cur \<Rightarrow>
                if cur = JNum 1 then io_bind (turnOff net addr) (\<lambda>u. io_return False)
                else io_bind (turnOn net addr) (\<lambda>u. io_return True))
      | OtherAction \<Rightarrow> io_return True)"

definition control ::
  "hsv_conversion \<Rightarrow> network \<Rightarrow> string \<Rightarrow> DeviceControlRequest \<Rightarrow> unit io" where
  "control hsv net addr request =
     io_bind (power_step net addr (rq_action request)) (\<lambda>go_on.
       if go_on then apply_settings hsv net addr request else io_return ())"

definition no_state :: DeviceState where
  "no_state = \<lparr>power = None, brightness = Undefined, color = Undefined, hue = Undefined,
                saturation = Undefined, color_temp = Undefined\<rparr>"

text \<open>The state \<open>getState\<close> builds from a truthy \<open>sysinfo\<close>.\<close>

definition decode_state :: "jv \<Rightarrow> DeviceState" where
  "decode_state sysinfo =
     (let relay = opt_prop sysinfo ''relay_state'';
          light = opt_prop sysinfo ''light_state''
      in if relay \<noteq> Undefined
         then no_state\<lparr>power := Some (if relay = JNum 1 then PowerOn else PowerOff)\<rparr>
         else if truthy light
         then no_state
                \<lparr>power := Some (if opt_prop light ''on_off'' = JNum 1 then PowerOn else PowerOff),
                 brightness := opt_prop light ''brightness'',
                 hue := opt_prop light ''hue'',
                 saturation := opt_prop light ''saturation'',
                 color_temp := opt_prop light ''color_temp''\<rparr>
         else no_state)"

definition getState :: "network \<Rightarrow> string \<Rightarrow> DeviceState io" where
  "getState net addr =
     io_bind (getDeviceInfo net addr) (\<lambda>info.
       case get_prop info ''system'' of
         Inl e \<Rightarrow> io_throw e
       | Inr sys \<Rightarrow>
           (let sysinfo = opt_prop sys ''get_sysinfo''
            in if \<not> truthy sysinfo then io_throw (Error ''Unable to get device info'')
               else io_return (decode_state sysinfo)))"

section \<open>The device registry (class DeviceRegistry)\<close>

text \<open>
  The clock and the file system are the environment: \<open>date env k\<close> is the time the
  \<open>k\<close>-th \<open>new Date()\<close> of the process reads, \<open>write_ok env k\<close> says whether the
  \<open>k\<close>-th \<open>writeFileSync\<close> returns (it throws otherwise).
\<close>

record environment =
  date :: "nat \<Rightarrow> nat"
  write_ok :: "nat \<Rightarrow> bool"

record snapshot =
  snap_devices :: "Device list"
  last_updated :: nat

text \<open>
  The \<open>Map\<close> keeps insertion order: an association list. \<open>writes\<close> logs every
  snapshot handed to \<open>writeFileSync\<close> with its outcome; \<open>ticks\<close> counts the dates read.
\<close>

record registry =
  devices :: "(string \<times> Device) list"
  writes :: "(snapshot \<times> bool) list"
  ticks :: nat

text \<open>\<open>saveRegistry\<close> catches the failure of the write and logs it.\<close>

definition saveRegistry :: "environment \<Rightarrow> registry \<Rightarrow> registry" where
  "saveRegistry env r =
     r\<lparr>writes := writes r @
          [(\<lparr>snap_devices = map snd (devices r), last_updated = date env (ticks r)\<rparr>,
            write_ok env (length (writes r)))],
       ticks := Suc (ticks r)\<rparr>"

definition getAllDevices :: "registry \<Rightarrow> Device list" where
  "getAllDevices r = map snd (devices r)"

definition getDevice :: "registry \<Rightarrow> string \<Rightarrow> Device option" where
  "getDevice r i = map_of (devices r) i"

text \<open>
  Names are strings of code units below 256. On those, \<open>toLowerCase()\<close> followed by
  \<open>replace(/[^a-z0-9]/g, '')\<close> lowers the letters A to Z and keeps the letters a to z
  and the digits: a code unit from 128 on is removed whatever its lower case is.
\<close>

definition lower_char :: "char \<Rightarrow> char" where
  "lower_char c =
     (let n = (of_char c :: nat) in if 65 \<le> n \<and> n \<le> 90 then char_of (n + 32) else c)"

definition is_az09 :: "char \<Rightarrow> bool" where
  "is_az09 c = (let n = (of_char c :: nat) in (97 \<le> n \<and> n \<le> 122) \<or> (48 \<le> n \<and> n \<le> 57))"

definition normalize :: "string \<Rightarrow> string" where
  "normalize s = filter is_az09 (map lower_char s)"

text \<open>\<open>s.includes(t)\<close>: \<open>t\<close> starts at some position of \<open>s\<close>.\<close>

fun str_includes :: "string \<Rightarrow> string \<Rightarrow> bool" where
  "str_includes [] t = (t = [])"
| "str_includes (c # cs) t = (prefix t (c # cs) \<or> str_includes cs t)"

text \<open>The predicate handed to \<open>find\<close>; an absent alias is the empty string.\<close>

definition name_matches :: "string \<Rightarrow> Device \<Rightarrow> bool" where
  "name_matches normalizedName device =
     (let deviceName = normalize (name device);
          deviceAlias = (case dev_alias device of
                           None \<Rightarrow> []
                         | Some a \<Rightarrow> normalize a);
          deviceId = normalize (dev_id device)
      in str_includes deviceName normalizedName \<or>
         str_includes deviceAlias normalizedName \<or>
         str_includes deviceId normalizedName \<or>
         str_includes normalizedName deviceName \<or>
         str_includes normalizedName deviceAlias \<or>
         str_includes normalizedName deviceId)"

definition getDeviceByName :: "registry \<Rightarrow> string \<Rightarrow> Device option" where
  "getDeviceByName r nm = find (name_matches (normalize nm)) (map snd (devices r))"

text \<open>
  The match of the specification: the normalized query is a substring of the device's
  normalized name, alias or id, or one of those is a substring of the normalized query.
  The fields are the ones the device has.
\<close>

definition fuzzy_fields :: "Device \<Rightarrow> string list" where
  "fuzzy_fields d =
     normalize (name d) #
     (case dev_alias d of None \<Rightarrow> [] | Some a \<Rightarrow> [normalize a]) @ [normalize (dev_id d)]"

definition fuzzy_match :: "string \<Rightarrow> Device \<Rightarrow> bool" where
  "fuzzy_match q d =
     (\<exists>f \<in> set (fuzzy_fields d). sublist (normalize q) f \<or> sublist f (normalize q))"

definition getOnlineDevices :: "registry \<Rightarrow> Device list" where
  "getOnlineDevices r = filter (\<lambda>device. online device \<noteq> Some False) (map snd (devices r))"

definition addDevice :: "environment \<Rightarrow> registry \<Rightarrow> Device \<Rightarrow> registry" where
  "addDevice env r device =
     saveRegistry env
       (r\<lparr>devices := AList.update (dev_id device)
                        (device\<lparr>lastSeen := Some (date env (ticks r))\<rparr>) (devices r),
          ticks := Suc (ticks r)\<rparr>)"

text \<open>
  A \<open>Partial<Device>\<close> is the list of the properties it sets; the spread
  \<open>{...device, ...updates}\<close> assigns them in order.
\<close>

datatype DeviceField =
    Set_id string
  | Set_mac "string option"
  | Set_name string
  | Set_alias "string option"
  | Set_type device_type
  | Set_brand device_brand
  | Set_model "string option"
  | Set_ip string
  | Set_capabilities "DeviceCapability list"
  | Set_room "string option"
  | Set_deviceId "string option"
  | Set_sw_ver "string option"
  | Set_hw_ver "string option"
  | Set_features "DeviceFeatures option"
  | Set_note "string option"
  | Set_online "bool option"
  | Set_lastSeen "nat option"
  | Set_state "DeviceState option"

fun assign :: "DeviceField \<Rightarrow> Device \<Rightarrow> Device" where
  "assign (Set_id v) d = d\<lparr>dev_id := v\<rparr>"
| "assign (Set_mac v) d = d\<lparr>mac := v\<rparr>"
| "assign (Set_name v) d = d\<lparr>name := v\<rparr>"
| "assign (Set_alias v) d = d\<lparr>dev_alias := v\<rparr>"
| "assign (Set_type v) d = d\<lparr>dev_type := v\<rparr>"
| "assign (Set_brand v) d = d\<lparr>brand := v\<rparr>"
| "assign (Set_model v) d = d\<lparr>model := v\<rparr>"
| "assign (Set_ip v) d = d\<lparr>ip := v\<rparr>"
| "assign (Set_capabilities v) d = d\<lparr>capabilities := v\<rparr>"
| "assign (Set_room v) d = d\<lparr>room := v\<rparr>"
| "assign (Set_deviceId v) d = d\<lparr>deviceId := v\<rparr>"
| "assign (Set_sw_ver v) d = d\<lparr>sw_ver := v\<rparr>"
| "assign (Set_hw_ver v) d = d\<lparr>hw_ver := v\<rparr>"
| "assign (Set_features v) d = d\<lparr>features := v\<rparr>"
| "assign (Set_note v) d = d\<lparr>dev_note := v\<rparr>"
| "assign (Set_online v) d = d\<lparr>online := v\<rparr>"
| "assign (Set_lastSeen v) d = d\<lparr>lastSeen := v\<rparr>"
| "assign (Set_state v) d = d\<lparr>state := v\<rparr>"

definition updateDevice ::
  "environment \<Rightarrow> registry \<Rightarrow> string \<Rightarrow> DeviceField list \<Rightarrow> bool \<times> registry" where
  "updateDevice env r i updates =
     (case getDevice r i of
        None \<Rightarrow> (False, r)
      | Some device \<Rightarrow>
          (True,
           saveRegistry env
             (r\<lparr>devices := AList.update i
                              ((fold assign updates device)\<lparr>lastSeen := Some (date env (ticks r))\<rparr>)
                              (devices r),
                ticks := Suc (ticks r)\<rparr>)))"

text \<open>\<open>Map.delete\<close> runs first; the registry is saved when it deleted something.\<close>

definition removeDevice :: "environment \<Rightarrow> registry \<Rightarrow> string \<Rightarrow> bool \<times> registry" where
  "removeDevice env r i =
     (let deleted = (getDevice r i \<noteq> None);
          r1 = r\<lparr>devices := AList.delete i (devices r)\<rparr>
      in if deleted then (True, saveRegistry env r1) else (False, r1))"

definition setDeviceOnlineStatus ::
  "environment \<Rightarrow> registry \<Rightarrow> string \<Rightarrow> bool \<Rightarrow> bool \<times> registry" where
  "setDeviceOnlineStatus env r i on =
     (case getDevice r i of
        None \<Rightarrow> (False, r)
      | Some device \<Rightarrow>
          (True,
           saveRegistry env
             (r\<lparr>devices := AList.update i
                              (device\<lparr>online := Some on, lastSeen := Some (date env (ticks r))\<rparr>)
                              (devices r),
                ticks := Suc (ticks r)\<rparr>)))"

definition updateDeviceState ::
  "environment \<Rightarrow> registry \<Rightarrow> string \<Rightarrow> DeviceState \<Rightarrow> bool \<times> registry" where
  "updateDeviceState env r i st =
     (case getDevice r i of
        None \<Rightarrow> (False, r)
      | Some device \<Rightarrow>
          (True,
           saveRegistry env
             (r\<lparr>devices := AList.update i
                              (device\<lparr>state := Some st, lastSeen := Some (date env (ticks r))\<rparr>)
                              (devices r),
                ticks := Suc (ticks r)\<rparr>)))"

text \<open>
  \<open>getStats\<close>: one pass over the devices, each counted in every table. A table is a
  plain object, read here as the map from its own keys.
\<close>

text \<open>
  What the table of rooms holds under a key: a count, or a string that is no count.
\<close>

datatype cell = Count nat | NotCount

record stats =
  total :: nat
  byType :: "device_type \<rightharpoonup> nat"
  byBrand :: "device_brand \<rightharpoonup> nat"
  byRoom :: "string \<rightharpoonup> cell"
  stats_online :: nat
  stats_offline :: nat

text \<open>
  \<open>table[k] = (table[k] || 0) + 1\<close> in the tables by type and by brand: their keys are
  \<open>light\<close>, \<open>plug\<close>, \<open>switch\<close>, \<open>kasa\<close>, \<open>tuya\<close> and \<open>unknown\<close>, which the object
  holds only once they are counted.
\<close>

definition bump :: "'k \<Rightarrow> ('k \<rightharpoonup> nat) \<Rightarrow> ('k \<rightharpoonup> nat)" where
  "bump k table = table(k \<mapsto> (case table k of None \<Rightarrow> 0 | Some n \<Rightarrow> n) + 1)"

text \<open>
  A room can have any name, also the name of a property every object inherits. Read
  under such a name, a table that does not hold the key gives the inherited function,
  which is truthy, and \<open>+ 1\<close> appends to its text: the table then holds a string under
  the key, and appends to it from then on. Under \<open>__proto__\<close> the read gives the
  prototype and the write of the string is ignored, so the table stays as it is.
\<close>

definition inherited_names :: "string list" where
  "inherited_names =
     [''constructor'', ''__defineGetter__'', ''__defineSetter__'', ''hasOwnProperty'',
      ''__lookupGetter__'', ''__lookupSetter__'', ''isPrototypeOf'', ''propertyIsEnumerable'',
      ''toString'', ''valueOf'', ''toLocaleString'']"

definition bump_room :: "string \<Rightarrow> (string \<rightharpoonup> cell) \<Rightarrow> (string \<rightharpoonup> cell)" where
  "bump_room k table =
     (if k = ''__proto__'' then table
      else case table k of
             Some (Count n) \<Rightarrow> table(k \<mapsto> Count (n + 1))
           | Some NotCount \<Rightarrow> table(k \<mapsto> NotCount)
           | None \<Rightarrow>
               if k \<in> set inherited_names then table(k \<mapsto> NotCount)
               else table(k \<mapsto> Count 1))"

text \<open>\<open>device.room || 'unknown'\<close>\<close>

definition room_key :: "Device \<Rightarrow> string" where
  "room_key device =
     (case room device of None \<Rightarrow> ''unknown'' | Some rm \<Rightarrow> if rm = [] then ''unknown'' else rm)"

definition count_device :: "Device \<Rightarrow> stats \<Rightarrow> stats" where
  "count_device device s =
     (let s1 = s\<lparr>byType := bump (dev_type device) (byType s),
                  byBrand := bump (brand device) (byBrand s),
                  byRoom := bump_room (room_key device) (byRoom s)\<rparr>
      in if online device = Some False then s1\<lparr>stats_offline := stats_offline s1 + 1\<rparr>
         else s1\<lparr>stats_online := stats_online s1 + 1\<rparr>)"

definition getStats :: "registry \<Rightarrow> stats" where
  "getStats r =
     fold count_device (map snd (devices r))
       \<lparr>total = length (map snd (devices r)), byType = Map.empty, byBrand = Map.empty,
        byRoom = Map.empty, stats_online = 0, stats_offline = 0\<rparr>"

section \<open>The control surface (the routes of the API server)\<close>

datatype payload =
    ControlResult string action DeviceState
  | BrightnessResult string real DeviceState

record ApiResponse =
  success :: bool
  data :: "payload option"
  error :: "string option"
  timestamp :: nat

record http_response =
  status :: nat
  body :: ApiResponse

definition createResponse ::
  "environment \<Rightarrow> registry \<Rightarrow> bool \<Rightarrow> payload option \<Rightarrow> string option
     \<Rightarrow> ApiResponse \<times> registry" where
  "createResponse env r ok d e =
     (\<lparr>success = ok, data = d, error = e, timestamp = date env (ticks r)\<rparr>,
      r\<lparr>ticks := Suc (ticks r)\<rparr>)"

text \<open>
  \<open>error.message\<close>. The adapter's type errors come from reading \<open>system\<close> of a
  \<open>null\<close> reply; the cipher's range error never reaches a route.
\<close>

fun message :: "error \<Rightarrow> string" where
  "message (Error m) = m"
| "message TypeError = ''Cannot read properties of null (reading 'system')''"
| "message RangeError = ''The value is out of range''"

text \<open>\<open>getDeviceController\<close>: the address of the adapter it builds, or what it throws.\<close>

definition getDeviceController :: "Device \<Rightarrow> error + string" where
  "getDeviceController device =
     (case brand device of
        Kasa \<Rightarrow> Inr (ip device)
      | Tuya \<Rightarrow> Inl (Error ''Tuya devices not yet supported'')
      | UnknownBrand \<Rightarrow> Inl (Error ''Unsupported device brand: unknown''))"

text \<open>A route that answers before its \<open>try\<close> block reaches the adapter.\<close>

definition reject ::
  "environment \<Rightarrow> registry \<Rightarrow> nat \<Rightarrow> string \<Rightarrow> http_response \<times> registry" where
  "reject env r code msg =
     (case createResponse env r False None (Some msg) of
        (resp, r1) \<Rightarrow> (\<lparr>status = code, body = resp\<rparr>, r1))"

text \<open>
  The \<open>catch\<close> block of a route: \<open>registry.setDeviceOnlineStatus(req.params.id, false)\<close>,
  then the answer 500 with the error's message.
\<close>

definition route_failed ::
  "environment \<Rightarrow> registry \<Rightarrow> string \<Rightarrow> error \<Rightarrow> http_response \<times> registry" where
  "route_failed env r i e =
     (case setDeviceOnlineStatus env r i False of
        (marked, r1) \<Rightarrow> reject env r1 500 (message e))"

text \<open>
  The end of a \<open>try\<close> block: \<open>registry.updateDeviceState(device.id, state)\<close>,
  \<open>registry.setDeviceOnlineStatus(device.id, true)\<close>, then the answer.
\<close>

definition route_succeeded ::
  "environment \<Rightarrow> registry \<Rightarrow> Device \<Rightarrow> DeviceState \<Rightarrow> payload \<Rightarrow> http_response \<times> registry" where
  "route_succeeded env r device st d =
     (case updateDeviceState env r (dev_id device) st of
        (u1, r1) \<Rightarrow>
          (case setDeviceOnlineStatus env r1 (dev_id device) True of
             (u2, r2) \<Rightarrow>
               (case createResponse env r2 True (Some d) None of
                  (resp, r3) \<Rightarrow> (\<lparr>status = 200, body = resp\<rparr>, r3))))"

text \<open>
  What the \<open>try\<close> block of the control route awaits for a found device: the adapter is
  built, the command runs, the state is polled.
\<close>

definition control_attempt ::
  "hsv_conversion \<Rightarrow> network \<Rightarrow> Device \<Rightarrow> DeviceControlRequest \<Rightarrow> DeviceState io" where
  "control_attempt hsv net device request =
     (case getDeviceController device of
        Inl e \<Rightarrow> io_throw e
      | Inr addr \<Rightarrow> io_bind (control hsv net addr request) (\<lambda>u. getState net addr))"

text \<open>
  A route gives its answer (none when an awaited promise never settles), the registry
  and the log of exchanges.
\<close>

definition control_route ::
  "hsv_conversion \<Rightarrow> network \<Rightarrow> environment \<Rightarrow> registry \<Rightarrow> exchange list \<Rightarrow> string
     \<Rightarrow> DeviceControlRequest \<Rightarrow> http_response option \<times> registry \<times> exchange list" where
  "control_route hsv net env r sent i request =
     (case getDevice r i of
        None \<Rightarrow>
          (case reject env r 404 ''Device not found'' of (resp, r1) \<Rightarrow> (Some resp, r1, sent))
      | Some device \<Rightarrow>
          (case control_attempt hsv net device request sent of
             (Resolved st, sent') \<Rightarrow>
               (case route_succeeded env r device st
                       (ControlResult (name device) (rq_action request) st) of
                  (resp, r1) \<Rightarrow> (Some resp, r1, sent'))
           | (Rejected e, sent') \<Rightarrow>
               (case route_failed env r i e of (resp, r1) \<Rightarrow> (Some resp, r1, sent'))
           | (Pending, sent') \<Rightarrow> (None, r, sent')))"

definition brightness_attempt :: "network \<Rightarrow> Device \<Rightarrow> real \<Rightarrow> DeviceState io" where
  "brightness_attempt net device level =
     (case getDeviceController device of
        Inl e \<Rightarrow> io_throw e
      | Inr addr \<Rightarrow> io_bind (setBrightness net addr level) (\<lambda>u. getState net addr))"

text \<open>\<open>level\<close> is what the request body holds under that key.\<close>

definition valid_level :: "jv \<Rightarrow> real option" where
  "valid_level level =
     (case level of
        JNum n \<Rightarrow> if n < 0 \<or> n > 100 then None else Some n
      | _ \<Rightarrow> None)"

definition brightness_route ::
  "network \<Rightarrow> environment \<Rightarrow> registry \<Rightarrow> exchange list \<Rightarrow> string \<Rightarrow> jv
     \<Rightarrow> http_response option \<times> registry \<times> exchange list" where
  "brightness_route net env r sent i level =
     (case getDevice r i of
        None \<Rightarrow>
          (case reject env r 404 ''Device not found'' of (resp, r1) \<Rightarrow> (Some resp, r1, sent))
      | Some device \<Rightarrow>
          if CapBrightness \<notin> set (capabilities device)
          then (case reject env r 400 ''Device does not support brightness control'' of
                  (resp, r1) \<Rightarrow> (Some resp, r1, sent))
          else
            (case valid_level level of
               None \<Rightarrow>
                 (case reject env r 400 ''Brightness level must be between 0 and 100'' of
                    (resp, r1) \<Rightarrow> (Some resp, r1, sent))
             | Some n \<Rightarrow>
                 (case brightness_attempt net device n sent of
                    (Resolved st, sent') \<Rightarrow>
                      (case route_succeeded env r device st
                              (BrightnessResult (name device) n st) of
                         (resp, r1) \<Rightarrow> (Some resp, r1, sent'))
                  | (Rejected e, sent') \<Rightarrow>
                      (case route_failed env r i e of (resp, r1) \<Rightarrow> (Some resp, r1, sent'))
                  | (Pending, sent') \<Rightarrow> (None, r, sent'))))"

section \<open>Properties stated about the registry and the replies\<close>

text \<open>
  \<open>r'\<close> comes from \<open>r\<close> by one save: the log grew by one entry, the snapshot of all
  the devices of \<open>r'\<close>, dated by the last date read, with the outcome of that write.
\<close>

definition persisted :: "environment \<Rightarrow> registry \<Rightarrow> registry \<Rightarrow> bool" where
  "persisted env r r' =
     (writes r' = writes r @
        [(\<lparr>snap_devices = getAllDevices r', last_updated = date env (ticks r' - 1)\<rparr>,
          write_ok env (length (writes r)))])"

text \<open>
  A reply of the lighting service that reports no error: the check \<open>turnOn\<close> and
  \<open>turnOff\<close> make on the relay's reply (\<open>err_code\<close> is the number 0), read where the
  lighting service puts it. The setters of the adapter do not make this check; it says
  which replies a statement speaks about.
\<close>

definition light_accepted :: "jv \<Rightarrow> bool" where
  "light_accepted reply =
     (opt_prop
        (opt_prop (opt_prop reply ''smartlife.iot.smartbulb.lightingservice'')
           ''transition_light_state'')
        ''err_code'' = JNum 0)"

section \<open>Sample devices, replies and networks\<close>

definition example_device ::
  "string \<Rightarrow> string \<Rightarrow> string option \<Rightarrow> device_brand \<Rightarrow> DeviceCapability list \<Rightarrow> Device" where
  "example_device i nm al br caps =
     \<lparr>dev_id = i, mac = None, name = nm, dev_alias = al, dev_type = Light, brand = br,
      model = None, ip = ''10.0.0.7'', capabilities = caps, room = None, deviceId = None,
      sw_ver = None, hw_ver = None, features = None, dev_note = None, online = None,
      lastSeen = None, state = None\<rparr>"

definition desk_lamp :: Device where
  "desk_lamp = example_device ''desk-1'' ''Desk Lamp'' (Some ''desk'') Kasa [CapPower, CapBrightness]"

definition floor_lamp :: Device where
  "floor_lamp = example_device ''floor-2'' ''Floor Lamp'' (Some ''floor'') Kasa [CapPower]"

definition kitchen_plug :: Device where
  "kitchen_plug = example_device ''plug1'' ''Kitchen Plug'' None Kasa [CapPower]"

definition example_registry :: "Device list \<Rightarrow> registry" where
  "example_registry ds = \<lparr>devices = map (\<lambda>d. (dev_id d, d)) ds, writes = [], ticks = 0\<rparr>"

text \<open>A clock that starts at 1000 and a disk on which every write fails.\<close>

definition example_env :: environment where
  "example_env = \<lparr>date = (\<lambda>k. 1000 + k), write_ok = (\<lambda>k. False)\<rparr>"

definition plug_reply :: "real \<Rightarrow> jv" where
  "plug_reply relay =
     JObj [(''system'', JObj [(''get_sysinfo'', JObj [(''relay_state'', JNum relay)])])]"

definition relay_ok :: jv where
  "relay_ok = JObj [(''system'', JObj [(''set_relay_state'', JObj [(''err_code'', JNum 0)])])]"

definition relay_error :: jv where
  "relay_error =
     JObj [(''system'', JObj [(''set_relay_state'', JObj [(''err_code'', JNum (- 3))])])]"

definition light_error :: jv where
  "light_error =
     JObj [(''smartlife.iot.smartbulb.lightingservice'',
            JObj [(''transition_light_state'',
                   JObj [(''err_code'', JNum (- 10000)),
                         (''err_msg'', JStr ''Invalid input argument'')])])]"

text \<open>A plug that reports the given relay state to every query and accepts every command.\<close>

definition plug_net :: "real \<Rightarrow> network" where
  "plug_net relay hist ex =
     (if snd ex = get_sysinfo_cmd then Resolved (plug_reply relay) else Resolved relay_ok)"

text \<open>
  A device whose reply to the query is the empty object, with no device information,
  and which accepts every command.
\<close>

definition mute_net :: network where
  "mute_net hist ex =
     (if snd ex = get_sysinfo_cmd then Resolved (JObj []) else Resolved relay_ok)"

text \<open>A bulb: it reports its light state to the query and accepts every lighting command.\<close>

definition light_ok :: jv where
  "light_ok =
     JObj [(''smartlife.iot.smartbulb.lightingservice'',
            JObj [(''transition_light_state'', JObj [(''err_code'', JNum 0)])])]"

definition bulb_reply :: jv where
  "bulb_reply =
     JObj [(''system'',
            JObj [(''get_sysinfo'',
                   JObj [(''light_state'',
                          JObj [(''on_off'', JNum 1), (''brightness'', JNum 50)])])])]"

definition bulb_net :: network where
  "bulb_net hist ex = (if snd ex = get_sysinfo_cmd then Resolved bulb_reply else Resolved light_ok)"

text \<open>A device that does not answer in time.\<close>

definition dead_net :: network where
  "dead_net hist ex = Rejected (Error ''Connection timeout'')"

definition no_hsv :: hsv_conversion where
  "no_hsv r g b = (0, 0)"

definition toggle_request :: DeviceControlRequest where
  "toggle_request =
     \<lparr>rq_action = Toggle, rq_brightness = Some 40, rq_color = None, rq_color_temp = None,
      rq_hue = None, rq_saturation = None, rq_transition = None\<rparr>"

definition off_request :: DeviceControlRequest where
  "off_request =
     \<lparr>rq_action = Off, rq_brightness = Some 40, rq_color = Some (255, 0, 0),
      rq_color_temp = Some 2700, rq_hue = Some 120, rq_saturation = Some 50,
      rq_transition = None\<rparr>"

definition on_request :: DeviceControlRequest where
  "on_request =
     \<lparr>rq_action = On, rq_brightness = None, rq_color = None, rq_color_temp = None,
      rq_hue = None, rq_saturation = None, rq_transition = None\<rparr>"

section \<open>The cipher: results\<close>

lemma be32_digits:
  fixes n :: int
  shows "n div 16777216 * 16777216 + n div 65536 mod 256 * 65536 + n div 256 mod 256 * 256
           + n mod 256 = n"
proof -
  define a where "a = n div 256"
  define b where "b = a div 256"
  define c where "c = b div 256"
  have b_eq: "n div 65536 = b"
    unfolding b_def a_def by (simp add: zdiv_zmult2_eq)
  have c_eq: "n div 16777216 = c"
    unfolding c_def b_def a_def by (simp add: zdiv_zmult2_eq)
  have n_split: "n = a * 256 + n mod 256"
    unfolding a_def by simp
  have a_split: "a = b * 256 + a mod 256"
    unfolding b_def by simp
  have b_split: "b = c * 256 + b mod 256"
    unfolding c_def by simp
  have "c * 16777216 + b mod 256 * 65536 + a mod 256 * 256 + n mod 256
          = ((c * 256 + b mod 256) * 256 + a mod 256) * 256 + n mod 256"
    by (simp add: algebra_simps)
  also have "\<dots> = n"
    using n_split a_split b_split by simp
  finally show ?thesis
    using b_eq c_eq by (simp add: a_def)
qed

text \<open>The header written for a length below \<open>2^32\<close> reads back as that length.\<close>

lemma read_write_UInt32BE:
  assumes "0 \<le> n" and "n < 2 ^ 32"
  shows "readUInt32BE (writeUInt32BE n @ payload) = Inr n"
proof -
  have "n div 16777216 < 256" and "0 \<le> n div 16777216"
    using assms by simp_all
  then have top: "n div 16777216 mod 256 = n div 16777216"
    by simp
  have "readUInt32BE (writeUInt32BE n @ payload) =
          Inr (n div 16777216 mod 256 * 16777216 + n div 65536 mod 256 * 65536
               + n div 256 mod 256 * 256 + n mod 256)"
    by (simp add: writeUInt32BE_def uint_word_of_int)
  then show ?thesis
    by (simp only: top be32_digits)
qed

lemma length_writeUInt32BE: "length (writeUInt32BE n) = 4"
  by (simp add: writeUInt32BE_def)

lemma length_encrypt_loop: "length (encrypt_loop k s) = length s"
  by (induction s arbitrary: k) (simp_all add: Let_def)

text \<open>
  On bytes the two loops are inverse, whatever the key they start from: the key of
  \<open>encrypt\<close> stays a byte, and \<open>decrypt\<close> takes the ciphertext byte as its next key.
\<close>

lemma decrypt_encrypt_loop:
  "decrypt_loop k (encrypt_loop (ucast k) (map ucast (bs :: byte list))) = map ucast bs"
proof (induction bs arbitrary: k)
  case Nil
  then show ?case by simp
next
  case (Cons b bs)
  have up: "((ucast b :: code_unit) XOR ucast k) = ucast (b XOR k)"
    by (rule bit_word_eqI) (auto simp add: bit_simps)
  have down: "(ucast (ucast x :: code_unit) :: byte) = x" for x :: byte
    by (rule bit_word_eqI) (auto simp add: bit_simps)
  have cancel: "(b XOR k) XOR k = b"
    by (simp add: xor.assoc)
  show ?case
    using Cons.IH [of "b XOR k"] by (simp add: Let_def up down cancel)
qed

text \<open>
  Every non-empty byte sequence that fits the header round-trips: the buffer is longer
  than 4 bytes, so \<open>decrypt\<close> finds the header and skips it.
\<close>

lemma roundtrip_nonempty:
  fixes bs :: "byte list"
  assumes "bs \<noteq> []" and "int (length bs) < 2 ^ 32"
  shows "roundtrip (map ucast bs) = Inr (map ucast bs)"
proof -
  let ?s = "map ucast bs :: code_unit list"
  define payload where "payload = encrypt_loop 171 ?s"
  define header where "header = writeUInt32BE (int (length bs))"
  have enc: "encrypt ?s = Inr (header @ payload)"
    using assms(2) by (simp add: encrypt_def header_def payload_def)
  have len_h: "length header = 4"
    by (simp add: header_def length_writeUInt32BE)
  have len_p: "length payload = length bs"
    by (simp add: payload_def length_encrypt_loop)
  have hdr: "readUInt32BE (header @ payload) = Inr (int (length bs))"
    unfolding header_def using assms(2) by (intro read_write_UInt32BE) simp_all
  have start: "decrypt_start (header @ payload) = 4"
    using assms(1) hdr len_h len_p by (simp add: decrypt_start_def)
  have "decrypt (header @ payload) = decrypt_loop 171 payload"
    by (simp add: decrypt_def start len_h)
  also have "\<dots> = ?s"
    using decrypt_encrypt_loop [of 171 bs] by (simp add: payload_def)
  finally show ?thesis
    by (simp add: roundtrip_def enc)
qed

text \<open>
  C1. The claim: for every byte sequence \<open>S\<close>, the empty one included,
  \<open>decrypt(encrypt(S))\<close> is \<open>S\<close>. On the empty sequence \<open>encrypt\<close> gives the four
  header bytes \<open>0 0 0 0\<close>; that buffer is not longer than 4 bytes, so \<open>decrypt\<close> does not
  skip the header and deciphers it: the result is the four code units \<open>171 0 0 0\<close>, not
  the empty string.
\<close>

theorem roundtrip_empty_keeps_header:
  "encrypt [] = Inr [0, 0, 0, 0] \<and> decrypt [0, 0, 0, 0] = [171, 0, 0, 0] \<and>
   roundtrip [] = Inr [171, 0, 0, 0] \<and> roundtrip [] \<noteq> Inr []"
  by (simp add: roundtrip_def encrypt_def writeUInt32BE_def decrypt_def decrypt_start_def)

section \<open>The adapter: results\<close>

lemma snd_turnOn: "snd (turnOn net addr sent) = sent @ [(addr, relay_cmd 1)]"
  by (simp add: turnOn_def io_bind_def sendCommand_def io_throw_def io_return_def
      split: res.splits sum.splits)

lemma snd_turnOff: "snd (turnOff net addr sent) = sent @ [(addr, relay_cmd 0)]"
  by (simp add: turnOff_def io_bind_def sendCommand_def io_throw_def io_return_def
      split: res.splits sum.splits)

text \<open>Each setter makes no exchange or one, and that one is a lighting command.\<close>

lemma snd_setColor:
  "snd (setColor net addr h s bo sent) = sent \<or>
   (\<exists>ps. snd (setColor net addr h s bo sent) = sent @ [(addr, light_cmd ps)])"
  by (auto simp add: setColor_def with_brightness_def io_bind_def sendCommand_def io_throw_def
      io_return_def split: res.splits sum.splits option.splits)

lemma snd_setColorTemperature:
  "snd (setColorTemperature net addr t bo sent) = sent \<or>
   (\<exists>ps. snd (setColorTemperature net addr t bo sent) = sent @ [(addr, light_cmd ps)])"
  by (auto simp add: setColorTemperature_def with_brightness_def io_bind_def sendCommand_def
      io_throw_def io_return_def split: res.splits sum.splits option.splits)

lemma snd_setBrightness:
  "snd (setBrightness net addr b sent) = sent \<or>
   (\<exists>ps. snd (setBrightness net addr b sent) = sent @ [(addr, light_cmd ps)])"
  by (auto simp add: setBrightness_def brightness_cmd_def io_bind_def sendCommand_def
      io_throw_def io_return_def split: res.splits)

lemma snd_setRGBColor:
  "snd (setRGBColor hsv net addr r g b bo sent) = sent \<or>
   (\<exists>ps. snd (setRGBColor hsv net addr r g b bo sent) = sent @ [(addr, light_cmd ps)])"
  using snd_setColor [of net addr "fst (hsv r g b)" "snd (hsv r g b)" bo sent]
  by (auto simp add: setRGBColor_def io_throw_def split: prod.splits)

lemma snd_apply_settings:
  "snd (apply_settings hsv net addr request sent) = sent \<or>
   (\<exists>ps. snd (apply_settings hsv net addr request sent) = sent @ [(addr, light_cmd ps)])"
  unfolding apply_settings_def
  using snd_setRGBColor snd_setColor snd_setColorTemperature snd_setBrightness
  by (auto simp add: io_return_def split: option.splits prod.splits)

lemma light_cmd_not_relay: "light_cmd ps \<noteq> relay_cmd n"
  by (simp add: light_cmd_def relay_cmd_def)

text \<open>
  \<open>turnOn\<close> and \<open>turnOff\<close> reject a reply whose \<open>err_code\<close> is not the number 0.
\<close>

lemma turnOn_err_code_rejected:
  assumes "net sent (addr, relay_cmd 1) = Resolved response"
    and "get_prop response ''system'' = Inr sys"
    and "opt_prop (opt_prop sys ''set_relay_state'') ''err_code'' \<noteq> JNum 0"
  shows "turnOn net addr sent =
           (Rejected (Error ''Failed to turn on device''), sent @ [(addr, relay_cmd 1)])"
  using assms
  by (simp add: turnOn_def relay_failed_def sendCommand_def io_bind_def io_throw_def)

lemma turnOff_err_code_rejected:
  assumes "net sent (addr, relay_cmd 0) = Resolved response"
    and "get_prop response ''system'' = Inr sys"
    and "opt_prop (opt_prop sys ''set_relay_state'') ''err_code'' \<noteq> JNum 0"
  shows "turnOff net addr sent =
           (Rejected (Error ''Failed to turn off device''), sent @ [(addr, relay_cmd 0)])"
  using assms
  by (simp add: turnOff_def relay_failed_def sendCommand_def io_bind_def io_throw_def)

text \<open>
  The three lighting setters never read the reply: whatever resolves, they succeed.
\<close>

lemma setBrightness_reply_unread:
  assumes "net sent (addr, brightness_cmd b) = Resolved response" and "0 \<le> b" and "b \<le> 100"
  shows "setBrightness net addr b sent = (Resolved (), sent @ [(addr, brightness_cmd b)])"
  using assms
  by (simp add: setBrightness_def sendCommand_def io_bind_def io_return_def)

lemma setColor_reply_unread:
  assumes "\<And>command. net sent (addr, command) = Resolved response"
    and "0 \<le> h" "h \<le> 360" "0 \<le> s" "s \<le> 100"
  shows "fst (setColor net addr h s None sent) = Resolved ()"
  using assms
  by (simp add: setColor_def with_brightness_def sendCommand_def io_bind_def io_return_def)

lemma setColorTemperature_reply_unread:
  assumes "\<And>command. net sent (addr, command) = Resolved response"
    and "2500 \<le> t" "t \<le> 9000"
  shows "fst (setColorTemperature net addr t None sent) = Resolved ()"
  using assms
  by (simp add: setColorTemperature_def with_brightness_def sendCommand_def io_bind_def
      io_return_def)

text \<open>
  C2. The claim: in every adapter operation a well-formed reply with a non-zero error
  code makes the operation fail. \<open>turnOn\<close> and \<open>turnOff\<close> do fail on such a reply;
  \<open>setBrightness\<close>, \<open>setColor\<close> and \<open>setColorTemperature\<close> succeed on a reply that
  carries the lighting service's error code \<open>-10000\<close>.
\<close>

theorem setters_ignore_err_code:
  "setBrightness (\<lambda>hist ex. Resolved light_error) ''10.0.0.7'' 50 [] =
     (Resolved (), [(''10.0.0.7'', brightness_cmd 50)]) \<and>
   fst (setColor (\<lambda>hist ex. Resolved light_error) ''10.0.0.7'' 120 50 None []) = Resolved () \<and>
   fst (setColorTemperature (\<lambda>hist ex. Resolved light_error) ''10.0.0.7'' 2700 None []) =
     Resolved () \<and>
   fst (turnOn (\<lambda>hist ex. Resolved relay_error) ''10.0.0.7'' []) =
     Rejected (Error ''Failed to turn on device'') \<and>
   fst (turnOff (\<lambda>hist ex. Resolved relay_error) ''10.0.0.7'' []) =
     Rejected (Error ''Failed to turn off device'')"
  by (simp add: setBrightness_def setColor_def setColorTemperature_def turnOn_def turnOff_def
      with_brightness_def relay_failed_def sendCommand_def io_bind_def io_return_def io_throw_def
      relay_error_def)

text \<open>
  What toggle reads as power on: a relay state that is the number 1, or no truthy relay
  state and a light state whose \<open>on_off\<close> is the number 1.
\<close>

lemma currentState_on_iff:
  "currentState info = Inr (JNum 1) \<longleftrightarrow>
     (\<exists>sys. get_prop info ''system'' = Inr sys \<and>
        (opt_prop (opt_prop sys ''get_sysinfo'') ''relay_state'' = JNum 1 \<or>
         \<not> truthy (opt_prop (opt_prop sys ''get_sysinfo'') ''relay_state'') \<and>
         opt_prop (opt_prop (opt_prop sys ''get_sysinfo'') ''light_state'') ''on_off'' = JNum 1))"
  by (auto simp add: currentState_def Let_def split: sum.splits)

text \<open>
  On the reply of a plug (no light state) and on the reply of a bulb (no relay state),
  toggle reads power on exactly when \<open>getState\<close> decodes the power as on.
\<close>

lemma currentState_agrees_with_getState:
  assumes "get_prop info ''system'' = Inr sys"
    and "opt_prop (opt_prop sys ''get_sysinfo'') ''light_state'' = Undefined \<or>
         opt_prop (opt_prop sys ''get_sysinfo'') ''relay_state'' = Undefined"
  shows "currentState info = Inr (JNum 1) \<longleftrightarrow>
         power (decode_state (opt_prop sys ''get_sysinfo'')) = Some PowerOn"
proof -
  let ?sysinfo = "opt_prop sys ''get_sysinfo''"
  from assms(2) show ?thesis
  proof
    assume plug: "opt_prop ?sysinfo ''light_state'' = Undefined"
    then show ?thesis
      using assms(1) by (auto simp add: currentState_def decode_state_def no_state_def Let_def)
  next
    assume bulb: "opt_prop ?sysinfo ''relay_state'' = Undefined"
    show ?thesis
    proof (cases "truthy (opt_prop ?sysinfo ''light_state'')")
      case True
      then show ?thesis
        using assms(1) bulb
        by (simp add: currentState_def decode_state_def no_state_def Let_def)
    next
      case False
      then have "opt_prop (opt_prop ?sysinfo ''light_state'') ''on_off'' = Undefined"
        by (cases "opt_prop ?sysinfo ''light_state''") simp_all
      then show ?thesis
        using assms(1) bulb False
        by (simp add: currentState_def decode_state_def no_state_def Let_def)
    qed
  qed
qed

lemma toggle_poll_rejected:
  assumes "rq_action request = Toggle" and "net sent (addr, get_sysinfo_cmd) = Rejected e"
  shows "control hsv net addr request sent = (Rejected e, sent @ [(addr, get_sysinfo_cmd)])"
  using assms
  by (simp add: control_def power_step_def getDeviceInfo_def sendCommand_def io_bind_def)

lemma toggle_poll_pending:
  assumes "rq_action request = Toggle" and "net sent (addr, get_sysinfo_cmd) = Pending"
  shows "control hsv net addr request sent = (Pending, sent @ [(addr, get_sysinfo_cmd)])"
  using assms
  by (simp add: control_def power_step_def getDeviceInfo_def sendCommand_def io_bind_def)

lemma toggle_poll_unreadable:
  assumes "rq_action request = Toggle" and "net sent (addr, get_sysinfo_cmd) = Resolved info"
    and "currentState info = Inl e"
  shows "control hsv net addr request sent = (Rejected e, sent @ [(addr, get_sysinfo_cmd)])"
  using assms
  by (simp add: control_def power_step_def getDeviceInfo_def sendCommand_def io_bind_def
      io_throw_def)

lemma toggle_when_on:
  assumes "rq_action request = Toggle" and "net sent (addr, get_sysinfo_cmd) = Resolved info"
    and "currentState info = Inr (JNum 1)"
  shows "snd (control hsv net addr request sent) =
           sent @ [(addr, get_sysinfo_cmd), (addr, relay_cmd 0)]"
proof -
  let ?s1 = "sent @ [(addr, get_sysinfo_cmd)]"
  have "control hsv net addr request sent =
          io_bind (io_bind (turnOff net addr) (\<lambda>u. io_return False))
            (\<lambda>go_on. if go_on then apply_settings hsv net addr request else io_return ()) ?s1"
    using assms
    by (simp add: control_def power_step_def getDeviceInfo_def sendCommand_def io_bind_def)
  also have "snd \<dots> = snd (turnOff net addr ?s1)"
    by (simp add: io_bind_def io_return_def split: prod.splits res.splits)
  finally show ?thesis
    by (simp add: snd_turnOff)
qed

text \<open>
  Any other reading that the poll resolves with, also none at all, leads to the power-on
  command.
\<close>

lemma toggle_when_not_on:
  assumes "rq_action request = Toggle" and "net sent (addr, get_sysinfo_cmd) = Resolved info"
    and "currentState info = Inr cur" and "cur \<noteq> JNum 1"
  shows "\<exists>rest. snd (control hsv net addr request sent) =
                  sent @ (addr, get_sysinfo_cmd) # (addr, relay_cmd 1) # rest \<and>
                (\<forall>n. (addr, relay_cmd n) \<notin> set rest)"
proof -
  let ?s1 = "sent @ [(addr, get_sysinfo_cmd)]"
  let ?s2 = "?s1 @ [(addr, relay_cmd 1)]"
  let ?out = "control hsv net addr request sent"
  have out: "?out =
          io_bind (io_bind (turnOn net addr) (\<lambda>u. io_return True))
            (\<lambda>go_on. if go_on then apply_settings hsv net addr request else io_return ()) ?s1"
    using assms
    by (simp add: control_def power_step_def getDeviceInfo_def sendCommand_def io_bind_def)
  have "snd ?out = ?s2 \<or> snd ?out = snd (apply_settings hsv net addr request ?s2)"
    unfolding out using snd_turnOn [of net addr ?s1]
    by (auto simp add: io_bind_def io_return_def split: prod.splits res.splits)
  then consider "snd ?out = ?s2" | ps where "snd ?out = ?s2 @ [(addr, light_cmd ps)]"
    using snd_apply_settings [of hsv net addr request ?s2] by auto
  then show ?thesis
  proof cases
    case 1
    then show ?thesis by simp
  next
    case 2
    then show ?thesis by (simp add: light_cmd_not_relay [symmetric])
  qed
qed

lemma toggle_polls_first:
  assumes "rq_action request = Toggle"
  shows "\<exists>rest. snd (control hsv net addr request sent) = sent @ (addr, get_sysinfo_cmd) # rest"
proof (cases "net sent (addr, get_sysinfo_cmd)")
  case Pending
  with assms show ?thesis by (simp add: toggle_poll_pending)
next
  case (Rejected e)
  with assms show ?thesis by (simp add: toggle_poll_rejected)
next
  case (Resolved info)
  show ?thesis
  proof (cases "currentState info")
    case (Inl e)
    with assms Resolved show ?thesis by (simp add: toggle_poll_unreadable)
  next
    case (Inr cur)
    show ?thesis
    proof (cases "cur = JNum 1")
      case True
      with assms Resolved Inr show ?thesis by (simp add: toggle_when_on)
    next
      case False
      with assms Resolved Inr
      have "\<exists>rest. snd (control hsv net addr request sent) =
                  sent @ (addr, get_sysinfo_cmd) # (addr, relay_cmd 1) # rest \<and>
                (\<forall>n. (addr, relay_cmd n) \<notin> set rest)"
        by (intro toggle_when_not_on)
      then show ?thesis by auto
    qed
  qed
qed

text \<open>
  C3. The claim: toggle polls the power state first, switches off a device that reports
  on and on a device that reports off, and when the poll fails issues no power command
  and fails. The first three parts hold (\<open>toggle_polls_first\<close>, \<open>toggle_when_on\<close>,
  \<open>toggle_when_not_on\<close>), and so does the last for a poll that is rejected
  (\<open>toggle_poll_rejected\<close>). It does not hold for a poll whose reply carries no device
  information: \<open>getState\<close> rejects that reply as a failed poll, while toggle reads
  no power state from it, takes that for off and sends the power-on command, then the
  brightness of the request, and succeeds.
\<close>

theorem toggle_guesses_without_power_state:
  "control no_hsv mute_net ''10.0.0.7'' toggle_request [] =
     (Resolved (),
      [(''10.0.0.7'', get_sysinfo_cmd), (''10.0.0.7'', relay_cmd 1),
       (''10.0.0.7'', brightness_cmd 40)]) \<and>
   getState mute_net ''10.0.0.7'' [] =
     (Rejected (Error ''Unable to get device info''), [(''10.0.0.7'', get_sysinfo_cmd)])"
  by (simp add: control_def power_step_def apply_settings_def getState_def getDeviceInfo_def
      turnOn_def relay_failed_def setBrightness_def currentState_def sendCommand_def
      io_bind_def io_return_def io_throw_def mute_net_def relay_ok_def toggle_request_def
      get_sysinfo_cmd_def relay_cmd_def brightness_cmd_def light_cmd_def)

text \<open>
  C6. A control request with action off makes one exchange, the power-off command,
  whatever brightness, color, hue, saturation or color temperature it carries; its
  outcome is the outcome of \<open>turnOff\<close>.
\<close>

theorem control_off_only_power_off:
  assumes "rq_action request = Off"
  shows "control hsv net addr request sent = turnOff net addr sent \<and>
         snd (control hsv net addr request sent) = sent @ [(addr, relay_cmd 0)]"
proof -
  have "control hsv net addr request sent = turnOff net addr sent"
    using assms
    by (simp add: control_def power_step_def io_bind_def io_return_def
        split: prod.splits res.splits)
  then show ?thesis
    by (simp add: snd_turnOff)
qed

theorem control_off_only_power_off_witness:
  "rq_action off_request = Off \<and>
   snd (control no_hsv (plug_net 1) ''10.0.0.7'' off_request []) = [(''10.0.0.7'', relay_cmd 0)]"
proof -
  have off: "rq_action off_request = Off"
    by (simp add: off_request_def)
  have "snd (control no_hsv (plug_net 1) ''10.0.0.7'' off_request []) =
          [] @ [(''10.0.0.7'', relay_cmd 0)]"
    using control_off_only_power_off [OF off, of no_hsv "plug_net 1" "''10.0.0.7''" "[]"]
    by blast
  then show ?thesis
    using off by simp
qed

section \<open>The registry: results\<close>

lemma getDevice_None_notin: "getDevice r i = None \<Longrightarrow> i \<notin> fst ` set (devices r)"
  by (simp add: getDevice_def map_of_eq_None_iff)

text \<open>
  C5. On an id the registry does not hold, update, remove, set-online-status and
  update-state return \<open>false\<close> and leave the registry as it was: the same devices, the
  same log of writes (no save is attempted), no date read.
\<close>

theorem unknown_id_no_change:
  assumes "getDevice r i = None"
  shows "updateDevice env r i updates = (False, r) \<and>
         removeDevice env r i = (False, r) \<and>
         setDeviceOnlineStatus env r i on = (False, r) \<and>
         updateDeviceState env r i st = (False, r)"
proof -
  have "AList.delete i (devices r) = devices r"
    using getDevice_None_notin [OF assms] by simp
  then have "removeDevice env r i = (False, r)"
    using assms by (simp add: removeDevice_def)
  then show ?thesis
    using assms by (simp add: updateDevice_def setDeviceOnlineStatus_def updateDeviceState_def)
qed

theorem unknown_id_no_change_witness:
  "getDevice (example_registry [kitchen_plug]) ''ghost'' = None \<and>
   updateDevice example_env (example_registry [kitchen_plug]) ''ghost'' [Set_online (Some True)] =
     (False, example_registry [kitchen_plug]) \<and>
   removeDevice example_env (example_registry [kitchen_plug]) ''ghost'' =
     (False, example_registry [kitchen_plug]) \<and>
   setDeviceOnlineStatus example_env (example_registry [kitchen_plug]) ''ghost'' True =
     (False, example_registry [kitchen_plug]) \<and>
   updateDeviceState example_env (example_registry [kitchen_plug]) ''ghost'' no_state =
     (False, example_registry [kitchen_plug])"
proof -
  have ghost: "getDevice (example_registry [kitchen_plug]) ''ghost'' = None"
    by (simp add: getDevice_def example_registry_def kitchen_plug_def example_device_def)
  show ?thesis
    using ghost
      unknown_id_no_change [OF ghost, where env = example_env
        and updates = "[Set_online (Some True)]" and on = True and st = no_state]
    by blast
qed

lemma saved_update:
  assumes "r1 = r\<lparr>devices := AList.update i d (devices r), ticks := Suc (ticks r)\<rparr>"
  shows "getDevice (saveRegistry env r1) i = Some d \<and> persisted env r (saveRegistry env r1)"
  using assms
  by (simp add: getDevice_def saveRegistry_def update_conv' persisted_def getAllDevices_def)

lemma addDevice_saved:
  "getDevice (addDevice env r device) (dev_id device) =
     Some (device\<lparr>lastSeen := Some (date env (ticks r))\<rparr>) \<and>
   persisted env r (addDevice env r device)"
  unfolding addDevice_def by (rule saved_update) simp

lemma updateDevice_saved:
  assumes "getDevice r i = Some d"
  shows "\<exists>r'. updateDevice env r i updates = (True, r') \<and>
           getDevice r' i = Some ((fold assign updates d)\<lparr>lastSeen := Some (date env (ticks r))\<rparr>) \<and>
           persisted env r r'"
  using assms saved_update [OF refl, of env r i] by (simp add: updateDevice_def)

lemma setDeviceOnlineStatus_saved:
  assumes "getDevice r i = Some d"
  shows "\<exists>r'. setDeviceOnlineStatus env r i on = (True, r') \<and>
           getDevice r' i = Some (d\<lparr>online := Some on, lastSeen := Some (date env (ticks r))\<rparr>) \<and>
           persisted env r r'"
  using assms saved_update [OF refl, of env r i] by (simp add: setDeviceOnlineStatus_def)

lemma updateDeviceState_saved:
  assumes "getDevice r i = Some d"
  shows "\<exists>r'. updateDeviceState env r i st = (True, r') \<and>
           getDevice r' i = Some (d\<lparr>state := Some st, lastSeen := Some (date env (ticks r))\<rparr>) \<and>
           persisted env r r'"
  using assms saved_update [OF refl, of env r i] by (simp add: updateDeviceState_def)

lemma removeDevice_saved:
  assumes "getDevice r i = Some d"
  shows "\<exists>r'. removeDevice env r i = (True, r') \<and> getDevice r' i = None \<and> persisted env r r'"
  using assms
  by (simp add: removeDevice_def getDevice_def saveRegistry_def delete_conv' persisted_def
      getAllDevices_def)

text \<open>
  The outcome of the write changes neither what an operation returns nor the devices it
  leaves: only the log entry records it.
\<close>

lemma write_outcome_irrelevant:
  "devices (addDevice (env\<lparr>write_ok := w\<rparr>) r device) = devices (addDevice env r device) \<and>
   map_prod id devices (updateDevice (env\<lparr>write_ok := w\<rparr>) r i updates) =
     map_prod id devices (updateDevice env r i updates) \<and>
   map_prod id devices (removeDevice (env\<lparr>write_ok := w\<rparr>) r i) =
     map_prod id devices (removeDevice env r i) \<and>
   map_prod id devices (setDeviceOnlineStatus (env\<lparr>write_ok := w\<rparr>) r i on) =
     map_prod id devices (setDeviceOnlineStatus env r i on) \<and>
   map_prod id devices (updateDeviceState (env\<lparr>write_ok := w\<rparr>) r i st) =
     map_prod id devices (updateDeviceState env r i st)"
  by (simp add: addDevice_def updateDevice_def removeDevice_def setDeviceOnlineStatus_def
      updateDeviceState_def saveRegistry_def Let_def split: option.splits)

text \<open>
  C7. Every successful mutation is saved once: the log of writes grows by the snapshot of
  all the devices the operation leaves (\<open>persisted\<close>). Add, update, set-online-status and
  update-state leave the device with the change and with \<open>lastSeen\<close> set to the date
  read by the operation; remove leaves no device under the id, so there is no timestamp
  to refresh. This holds for every environment, so also when the write fails: the
  operation still returns \<open>true\<close> and the devices are the changed ones. The last five
  conjuncts say that the result and the devices do not depend on the outcome of the write.
\<close>

theorem successful_mutation_persists:
  "(getDevice (addDevice env r device) (dev_id device) =
       Some (device\<lparr>lastSeen := Some (date env (ticks r))\<rparr>) \<and>
    persisted env r (addDevice env r device)) \<and>
   (\<forall>d. getDevice r i = Some d \<longrightarrow>
      (\<exists>r'. updateDevice env r i updates = (True, r') \<and>
            getDevice r' i =
              Some ((fold assign updates d)\<lparr>lastSeen := Some (date env (ticks r))\<rparr>) \<and>
            persisted env r r') \<and>
      (\<exists>r'. setDeviceOnlineStatus env r i on = (True, r') \<and>
            getDevice r' i =
              Some (d\<lparr>online := Some on, lastSeen := Some (date env (ticks r))\<rparr>) \<and>
            persisted env r r') \<and>
      (\<exists>r'. updateDeviceState env r i st = (True, r') \<and>
            getDevice r' i =
              Some (d\<lparr>state := Some st, lastSeen := Some (date env (ticks r))\<rparr>) \<and>
            persisted env r r') \<and>
      (\<exists>r'. removeDevice env r i = (True, r') \<and> getDevice r' i = None \<and>
            persisted env r r')) \<and>
   devices (addDevice (env\<lparr>write_ok := w\<rparr>) r device) = devices (addDevice env r device) \<and>
   map_prod id devices (updateDevice (env\<lparr>write_ok := w\<rparr>) r i updates) =
     map_prod id devices (updateDevice env r i updates) \<and>
   map_prod id devices (removeDevice (env\<lparr>write_ok := w\<rparr>) r i) =
     map_prod id devices (removeDevice env r i) \<and>
   map_prod id devices (setDeviceOnlineStatus (env\<lparr>write_ok := w\<rparr>) r i on) =
     map_prod id devices (setDeviceOnlineStatus env r i on) \<and>
   map_prod id devices (updateDeviceState (env\<lparr>write_ok := w\<rparr>) r i st) =
     map_prod id devices (updateDeviceState env r i st)"
proof -
  have known: "(\<exists>r'. updateDevice env r i updates = (True, r') \<and>
            getDevice r' i =
              Some ((fold assign updates d)\<lparr>lastSeen := Some (date env (ticks r))\<rparr>) \<and>
            persisted env r r') \<and>
      (\<exists>r'. setDeviceOnlineStatus env r i on = (True, r') \<and>
            getDevice r' i =
              Some (d\<lparr>online := Some on, lastSeen := Some (date env (ticks r))\<rparr>) \<and>
            persisted env r r') \<and>
      (\<exists>r'. updateDeviceState env r i st = (True, r') \<and>
            getDevice r' i =
              Some (d\<lparr>state := Some st, lastSeen := Some (date env (ticks r))\<rparr>) \<and>
            persisted env r r') \<and>
      (\<exists>r'. removeDevice env r i = (True, r') \<and> getDevice r' i = None \<and>
            persisted env r r')" if "getDevice r i = Some d" for d
    using updateDevice_saved [OF that] setDeviceOnlineStatus_saved [OF that]
      updateDeviceState_saved [OF that] removeDevice_saved [OF that]
    by blast
  show ?thesis
    using addDevice_saved [where env = env and r = r and device = device] known
      write_outcome_irrelevant [where env = env and w = w and r = r and device = device
        and i = i and updates = updates and on = on and st = st]
    by blast
qed

theorem successful_mutation_persists_witness:
  "getDevice (example_registry [kitchen_plug]) ''plug1'' = Some kitchen_plug \<and>
   \<not> write_ok example_env (length (writes (example_registry [kitchen_plug]))) \<and>
   (\<exists>r'. setDeviceOnlineStatus example_env (example_registry [kitchen_plug]) ''plug1'' False =
           (True, r') \<and>
         getDevice r' ''plug1'' = Some (kitchen_plug\<lparr>online := Some False, lastSeen := Some 1000\<rparr>) \<and>
         writes r' =
           [(\<lparr>snap_devices = [kitchen_plug\<lparr>online := Some False, lastSeen := Some 1000\<rparr>],
              last_updated = 1001\<rparr>, False)])"
proof -
  let ?r = "example_registry [kitchen_plug]"
  have known: "getDevice ?r ''plug1'' = Some kitchen_plug"
    by (simp add: getDevice_def example_registry_def kitchen_plug_def example_device_def)
  have fails: "\<not> write_ok example_env (length (writes ?r))"
    by (simp add: example_env_def)
  have now: "date example_env (ticks ?r) = 1000"
    by (simp add: example_env_def example_registry_def)
  obtain r' where op: "setDeviceOnlineStatus example_env ?r ''plug1'' False = (True, r')"
    and dev: "getDevice r' ''plug1'' =
                Some (kitchen_plug\<lparr>online := Some False,
                                   lastSeen := Some (date example_env (ticks ?r))\<rparr>)"
    and saved: "persisted example_env ?r r'"
    using successful_mutation_persists [where env = example_env and r = ?r and i = "''plug1''"
        and on = False] known
    by blast
  have r'_eq: "r' = snd (setDeviceOnlineStatus example_env ?r ''plug1'' False)"
    using op by simp
  have "writes r' =
          [(\<lparr>snap_devices = [kitchen_plug\<lparr>online := Some False, lastSeen := Some 1000\<rparr>],
             last_updated = 1001\<rparr>, False)]"
    unfolding r'_eq
    by (simp add: setDeviceOnlineStatus_def saveRegistry_def getDevice_def example_registry_def
        example_env_def kitchen_plug_def example_device_def)
  then show ?thesis
    using known fails op dev now by simp
qed

lemma fold_count_total: "total (fold count_device ds s) = total s"
  by (induction ds arbitrary: s) (simp_all add: count_device_def Let_def)

lemma fold_count_online:
  "stats_online (fold count_device ds s) =
     stats_online s + length (filter (\<lambda>device. online device \<noteq> Some False) ds)"
  by (induction ds arbitrary: s) (simp_all add: count_device_def Let_def)

lemma fold_count_offline:
  "stats_offline (fold count_device ds s) =
     stats_offline s + length (filter (\<lambda>device. online device = Some False) ds)"
  by (induction ds arbitrary: s) (simp_all add: count_device_def Let_def)

lemma online_offline_split:
  "length (filter (\<lambda>device. online device \<noteq> Some False) ds) +
   length (filter (\<lambda>device. online device = Some False) ds) = length ds"
  by (induction ds) simp_all

text \<open>
  C10. \<open>getOnlineDevices\<close> returns the devices whose \<open>online\<close> is not \<open>false\<close>, so a
  device whose flag was never set is among them; the statistics count the same devices
  as online, and the online and offline counts add up to the total, the number of
  devices.
\<close>

theorem undefined_online_counts_online:
  "getOnlineDevices r = filter (\<lambda>device. online device \<noteq> Some False) (getAllDevices r) \<and>
   (\<forall>device \<in> set (getAllDevices r).
      online device = None \<longrightarrow> device \<in> set (getOnlineDevices r)) \<and>
   stats_online (getStats r) = length (getOnlineDevices r) \<and>
   stats_online (getStats r) + stats_offline (getStats r) = total (getStats r) \<and>
   total (getStats r) = length (getAllDevices r)"
proof -
  let ?ds = "map snd (devices r)"
  have on: "stats_online (getStats r) =
              length (filter (\<lambda>device. online device \<noteq> Some False) ?ds)"
    by (simp add: getStats_def fold_count_online)
  have off: "stats_offline (getStats r) =
               length (filter (\<lambda>device. online device = Some False) ?ds)"
    by (simp add: getStats_def fold_count_offline)
  have tot: "total (getStats r) = length ?ds"
    by (simp add: getStats_def fold_count_total)
  have sum: "stats_online (getStats r) + stats_offline (getStats r) = total (getStats r)"
    unfolding on off tot by (rule online_offline_split)
  show ?thesis
    using on sum tot by (simp add: getOnlineDevices_def getAllDevices_def)
qed

theorem undefined_online_counts_online_witness:
  "online kitchen_plug = None \<and>
   kitchen_plug \<in> set (getOnlineDevices
     (example_registry [kitchen_plug, desk_lamp\<lparr>online := Some False\<rparr>,
        floor_lamp\<lparr>online := Some True\<rparr>])) \<and>
   stats_online (getStats
     (example_registry [kitchen_plug, desk_lamp\<lparr>online := Some False\<rparr>,
        floor_lamp\<lparr>online := Some True\<rparr>])) = 2 \<and>
   stats_offline (getStats
     (example_registry [kitchen_plug, desk_lamp\<lparr>online := Some False\<rparr>,
        floor_lamp\<lparr>online := Some True\<rparr>])) = 1 \<and>
   total (getStats
     (example_registry [kitchen_plug, desk_lamp\<lparr>online := Some False\<rparr>,
        floor_lamp\<lparr>online := Some True\<rparr>])) = 3"
proof -
  let ?r = "example_registry [kitchen_plug, desk_lamp\<lparr>online := Some False\<rparr>,
              floor_lamp\<lparr>online := Some True\<rparr>]"
  have all: "getAllDevices ?r =
               [kitchen_plug, desk_lamp\<lparr>online := Some False\<rparr>, floor_lamp\<lparr>online := Some True\<rparr>]"
    by (simp add: getAllDevices_def example_registry_def)
  have flags: "online kitchen_plug = None" "online floor_lamp = None" "online desk_lamp = None"
    by (simp_all add: kitchen_plug_def floor_lamp_def desk_lamp_def example_device_def)
  have "getOnlineDevices ?r = [kitchen_plug, floor_lamp\<lparr>online := Some True\<rparr>]"
    using undefined_online_counts_online [of ?r] by (simp add: all flags)
  moreover have "stats_online (getStats ?r) = length (getOnlineDevices ?r)"
    and "stats_online (getStats ?r) + stats_offline (getStats ?r) = total (getStats ?r)"
    and "total (getStats ?r) = length (getAllDevices ?r)"
    using undefined_online_counts_online [of ?r] by blast+
  ultimately show ?thesis
    using flags(1) by (simp add: all)
qed

text \<open>\<open>includes\<close> is the substring relation.\<close>

lemma str_includes_sublist: "str_includes s t \<longleftrightarrow> sublist t s"
  by (induction s) (simp_all add: sublist_Cons_right)

text \<open>
  On a device that has an alias the predicate of \<open>getDeviceByName\<close> is the match of the
  specification. A device without an alias matches every query: its alias counts as the
  empty string, which every normalized query includes.
\<close>

lemma name_matches_fuzzy:
  assumes "dev_alias d \<noteq> None"
  shows "name_matches (normalize q) d = fuzzy_match q d"
  using assms
  by (auto simp add: name_matches_def fuzzy_match_def fuzzy_fields_def str_includes_sublist
      Let_def)

lemma name_matches_no_alias:
  assumes "dev_alias d = None"
  shows "name_matches nq d"
  using assms by (simp add: name_matches_def str_includes_sublist Let_def)

text \<open>\<open>find\<close> returns the first element that satisfies the predicate.\<close>

lemma find_first:
  "find P xs = Some x \<longleftrightarrow>
     (\<exists>before after. xs = before @ x # after \<and> P x \<and> (\<forall>y \<in> set before. \<not> P y))"
proof (induction xs)
  case Nil
  then show ?case by simp
next
  case (Cons a xs)
  show ?case
  proof (cases "P a")
    case True
    have "(\<exists>before after. a # xs = before @ x # after \<and> P x \<and> (\<forall>y \<in> set before. \<not> P y))
            \<longleftrightarrow> x = a"
    proof
      assume "\<exists>before after. a # xs = before @ x # after \<and> P x \<and> (\<forall>y \<in> set before. \<not> P y)"
      then obtain before after where
        split: "a # xs = before @ x # after" and none: "\<forall>y \<in> set before. \<not> P y"
        by blast
      show "x = a"
      proof (cases before)
        case Nil
        then show ?thesis using split by simp
      next
        case (Cons b bs)
        then have "a \<in> set before" using split by simp
        then show ?thesis using none True by blast
      qed
    next
      assume "x = a"
      then have "a # xs = [] @ x # xs \<and> P x \<and> (\<forall>y \<in> set []. \<not> P y)"
        using True by simp
      then show "\<exists>before after. a # xs = before @ x # after \<and> P x \<and> (\<forall>y \<in> set before. \<not> P y)"
        by blast
    qed
    then show ?thesis using True by auto
  next
    case False
    have "(\<exists>before after. a # xs = before @ x # after \<and> P x \<and> (\<forall>y \<in> set before. \<not> P y))
            \<longleftrightarrow> (\<exists>before after. xs = before @ x # after \<and> P x \<and> (\<forall>y \<in> set before. \<not> P y))"
    proof
      assume "\<exists>before after. a # xs = before @ x # after \<and> P x \<and> (\<forall>y \<in> set before. \<not> P y)"
      then obtain before after where
        split: "a # xs = before @ x # after" and px: "P x" and none: "\<forall>y \<in> set before. \<not> P y"
        by blast
      show "\<exists>before after. xs = before @ x # after \<and> P x \<and> (\<forall>y \<in> set before. \<not> P y)"
      proof (cases before)
        case Nil
        then show ?thesis using split px False by simp
      next
        case (Cons b bs)
        then have "xs = bs @ x # after" and "\<forall>y \<in> set bs. \<not> P y"
          using split none by simp_all
        then show ?thesis using px by blast
      qed
    next
      assume "\<exists>before after. xs = before @ x # after \<and> P x \<and> (\<forall>y \<in> set before. \<not> P y)"
      then obtain before after where
        "xs = before @ x # after" and "P x" and "\<forall>y \<in> set before. \<not> P y"
        by blast
      then have "a # xs = (a # before) @ x # after \<and> P x \<and> (\<forall>y \<in> set (a # before). \<not> P y)"
        using False by simp
      then show "\<exists>before after. a # xs = before @ x # after \<and> P x \<and> (\<forall>y \<in> set before. \<not> P y)"
        by blast
    qed
    then show ?thesis using False Cons.IH by simp
  qed
qed

text \<open>
  C4. The claim: get-by-fuzzy-name returns a device exactly when the device matches the
  query. Two matching devices refute it: \<open>find\<close> returns the first one only. So does a
  device without an alias, which is returned for a query that none of its fields matches.
\<close>

theorem getDeviceByName_counterexample:
  "fuzzy_match ''lamp'' floor_lamp \<and>
   floor_lamp \<in> set (getAllDevices (example_registry [desk_lamp, floor_lamp])) \<and>
   getDeviceByName (example_registry [desk_lamp, floor_lamp]) ''lamp'' = Some desk_lamp \<and>
   desk_lamp \<noteq> floor_lamp \<and>
   getDeviceByName (example_registry [kitchen_plug]) ''bedroom lamp'' = Some kitchen_plug \<and>
   \<not> fuzzy_match ''bedroom lamp'' kitchen_plug"
  by (simp add: fuzzy_match_def fuzzy_fields_def str_includes_sublist [symmetric]
      getDeviceByName_def name_matches_def getAllDevices_def example_registry_def
      desk_lamp_def floor_lamp_def kitchen_plug_def example_device_def
      normalize_def lower_char_def is_az09_def char_of_def bit_Suc_0_iff)

text \<open>
  C4, amended. In a registry whose devices all have an alias, get-by-fuzzy-name returns
  the first device, in the order of the registry, that matches the query: the normalized
  query is a substring of the device's normalized name, alias or id, or one of those is
  a substring of the normalized query. It returns nothing exactly when no device matches.
\<close>

theorem getDeviceByName_first_match:
  assumes "\<forall>device \<in> set (getAllDevices r). dev_alias device \<noteq> None"
  shows "(getDeviceByName r q = Some d \<longleftrightarrow>
           (\<exists>before after. getAllDevices r = before @ d # after \<and> fuzzy_match q d \<and>
              (\<forall>x \<in> set before. \<not> fuzzy_match q x))) \<and>
         (getDeviceByName r q = None \<longleftrightarrow> (\<forall>x \<in> set (getAllDevices r). \<not> fuzzy_match q x))"
proof -
  have same: "name_matches (normalize q) x = fuzzy_match q x" if "x \<in> set (getAllDevices r)" for x
    using assms that name_matches_fuzzy by blast
  have "find (name_matches (normalize q)) (getAllDevices r) = find (fuzzy_match q) (getAllDevices r)"
    using same by (intro find_cong) simp_all
  then have eq: "getDeviceByName r q = find (fuzzy_match q) (getAllDevices r)"
    by (simp add: getDeviceByName_def getAllDevices_def)
  show ?thesis
    unfolding eq find_first find_None_iff by blast
qed

theorem getDeviceByName_first_match_witness:
  "dev_alias desk_lamp \<noteq> None \<and> dev_alias floor_lamp \<noteq> None \<and>
   getDeviceByName (example_registry [desk_lamp, floor_lamp]) ''Floor-Lamp'' = Some floor_lamp \<and>
   fuzzy_match ''Floor-Lamp'' floor_lamp \<and> \<not> fuzzy_match ''Floor-Lamp'' desk_lamp"
proof -
  let ?r = "example_registry [desk_lamp, floor_lamp]"
  have all: "getAllDevices ?r = [desk_lamp, floor_lamp]"
    by (simp add: getAllDevices_def example_registry_def)
  have aliases: "dev_alias desk_lamp \<noteq> None" "dev_alias floor_lamp \<noteq> None"
    by (simp_all add: desk_lamp_def floor_lamp_def example_device_def)
  then have hyp: "\<forall>device \<in> set (getAllDevices ?r). dev_alias device \<noteq> None"
    by (simp add: all)
  have found: "getDeviceByName ?r ''Floor-Lamp'' = Some floor_lamp"
    by (simp add: getDeviceByName_def name_matches_def example_registry_def
        desk_lamp_def floor_lamp_def example_device_def
        normalize_def lower_char_def is_az09_def char_of_def bit_Suc_0_iff)
  have differ: "desk_lamp \<noteq> floor_lamp"
    by (simp add: desk_lamp_def floor_lamp_def example_device_def)
  obtain before after where split: "[desk_lamp, floor_lamp] = before @ floor_lamp # after"
    and hit: "fuzzy_match ''Floor-Lamp'' floor_lamp"
    and miss: "\<forall>x \<in> set before. \<not> fuzzy_match ''Floor-Lamp'' x"
    using getDeviceByName_first_match [OF hyp, of "''Floor-Lamp''" floor_lamp] found all
    by auto
  have "before = [desk_lamp]"
    using split differ by (cases before) (auto simp add: Cons_eq_append_conv)
  then show ?thesis
    using aliases found hit miss by simp
qed

section \<open>The control surface: results\<close>

lemma reject_no_exchange:
  "reject env r code msg = (resp, r') \<Longrightarrow>
     status resp = code \<and> \<not> success (body resp) \<and> error (body resp) = Some msg \<and>
     devices r' = devices r \<and> writes r' = writes r"
  by (auto simp add: reject_def createResponse_def)

lemma route_succeeded_success:
  "route_succeeded env r device st d = (resp, r') \<Longrightarrow> success (body resp) \<and> status resp = 200"
  by (auto simp add: route_succeeded_def createResponse_def split: prod.splits)

lemma route_failed_failure:
  "route_failed env r i e = (resp, r') \<Longrightarrow> \<not> success (body resp)"
  by (auto simp add: route_failed_def reject_def createResponse_def split: prod.splits)

text \<open>
  The \<open>catch\<close> block on a known device: the device is stored offline with the date read
  first, the snapshot handed to the disk holds it so, and the answer is built afterwards
  (its timestamp is the third date read).
\<close>

lemma route_failed_known:
  assumes "getDevice r i = Some device"
  shows "\<exists>resp r'. route_failed env r i e = (resp, r') \<and>
           status resp = 500 \<and> \<not> success (body resp) \<and> data (body resp) = None \<and>
           error (body resp) = Some (message e) \<and>
           timestamp (body resp) = date env (ticks r + 2) \<and>
           getDevice r' i =
             Some (device\<lparr>online := Some False, lastSeen := Some (date env (ticks r))\<rparr>) \<and>
           writes r' = writes r @
             [(\<lparr>snap_devices = getAllDevices r', last_updated = date env (ticks r + 1)\<rparr>,
               write_ok env (length (writes r)))]"
  using assms
  by (simp add: route_failed_def setDeviceOnlineStatus_def reject_def createResponse_def
      saveRegistry_def getDevice_def update_conv' getAllDevices_def)

text \<open>The three steps at which the awaited part of the control route can fail.\<close>

lemma control_attempt_rejected:
  assumes "(getDeviceController device = Inl e \<and> sent' = sent) \<or>
           (\<exists>addr. getDeviceController device = Inr addr \<and>
              control hsv net addr request sent = (Rejected e, sent')) \<or>
           (\<exists>addr s1. getDeviceController device = Inr addr \<and>
              control hsv net addr request sent = (Resolved (), s1) \<and>
              getState net addr s1 = (Rejected e, sent'))"
  shows "control_attempt hsv net device request sent = (Rejected e, sent')"
  using assms by (auto simp add: control_attempt_def io_throw_def io_bind_def)

text \<open>
  C8. A control call on a known device in which a step fails with error \<open>e\<close>: the
  adapter cannot be built, the command is rejected, or the command succeeds and the state
  poll is rejected. The route answers 500 with the failure envelope carrying the message
  of \<open>e\<close>; the registry it leaves holds the device with \<open>online = false\<close> and a
  refreshed \<open>lastSeen\<close>, and has handed that snapshot to the disk. The device is marked
  before the answer is built: the mark reads the first date, the answer the third.
\<close>

theorem control_route_failure_marks_offline:
  assumes "getDevice r i = Some device"
    and "(getDeviceController device = Inl e \<and> sent' = sent) \<or>
         (\<exists>addr. getDeviceController device = Inr addr \<and>
            control hsv net addr request sent = (Rejected e, sent')) \<or>
         (\<exists>addr s1. getDeviceController device = Inr addr \<and>
            control hsv net addr request sent = (Resolved (), s1) \<and>
            getState net addr s1 = (Rejected e, sent'))"
  shows "\<exists>resp r'. control_route hsv net env r sent i request = (Some resp, r', sent') \<and>
           status resp = 500 \<and> \<not> success (body resp) \<and> data (body resp) = None \<and>
           error (body resp) = Some (message e) \<and>
           timestamp (body resp) = date env (ticks r + 2) \<and>
           getDevice r' i =
             Some (device\<lparr>online := Some False, lastSeen := Some (date env (ticks r))\<rparr>) \<and>
           writes r' = writes r @
             [(\<lparr>snap_devices = getAllDevices r', last_updated = date env (ticks r + 1)\<rparr>,
               write_ok env (length (writes r)))]"
proof -
  have att: "control_attempt hsv net device request sent = (Rejected e, sent')"
    using assms(2) by (rule control_attempt_rejected)
  obtain resp r' where rf: "route_failed env r i e = (resp, r')"
    and props: "status resp = 500" "\<not> success (body resp)" "data (body resp) = None"
      "error (body resp) = Some (message e)" "timestamp (body resp) = date env (ticks r + 2)"
      "getDevice r' i =
         Some (device\<lparr>online := Some False, lastSeen := Some (date env (ticks r))\<rparr>)"
      "writes r' = writes r @
             [(\<lparr>snap_devices = getAllDevices r', last_updated = date env (ticks r + 1)\<rparr>,
               write_ok env (length (writes r)))]"
    using route_failed_known [OF assms(1), of env e] by blast
  have "control_route hsv net env r sent i request = (Some resp, r', sent')"
    using assms(1) att rf by (simp add: control_route_def)
  then show ?thesis
    using props by blast
qed

theorem control_route_failure_marks_offline_witness:
  "getDevice (example_registry [kitchen_plug]) ''plug1'' = Some kitchen_plug \<and>
   control no_hsv dead_net ''10.0.0.7'' on_request [] =
     (Rejected (Error ''Connection timeout''), [(''10.0.0.7'', relay_cmd 1)]) \<and>
   (\<exists>resp r'. control_route no_hsv dead_net example_env (example_registry [kitchen_plug]) []
                ''plug1'' on_request = (Some resp, r', [(''10.0.0.7'', relay_cmd 1)]) \<and>
      status resp = 500 \<and> error (body resp) = Some ''Connection timeout'' \<and>
      timestamp (body resp) = 1002 \<and>
      getDevice r' ''plug1'' = Some (kitchen_plug\<lparr>online := Some False, lastSeen := Some 1000\<rparr>))"
proof -
  let ?r = "example_registry [kitchen_plug]"
  let ?log = "[(''10.0.0.7'', relay_cmd 1)]"
  have known: "getDevice ?r ''plug1'' = Some kitchen_plug"
    by (simp add: getDevice_def example_registry_def kitchen_plug_def example_device_def)
  have built: "getDeviceController kitchen_plug = Inr ''10.0.0.7''"
    by (simp add: getDeviceController_def kitchen_plug_def example_device_def)
  have cmd: "control no_hsv dead_net ''10.0.0.7'' on_request [] =
               (Rejected (Error ''Connection timeout''), ?log)"
    by (simp add: control_def power_step_def on_request_def turnOn_def sendCommand_def
        io_bind_def dead_net_def)
  have step: "(getDeviceController kitchen_plug = Inl (Error ''Connection timeout'') \<and> ?log = []) \<or>
         (\<exists>addr. getDeviceController kitchen_plug = Inr addr \<and>
            control no_hsv dead_net addr on_request [] =
              (Rejected (Error ''Connection timeout''), ?log)) \<or>
         (\<exists>addr s1. getDeviceController kitchen_plug = Inr addr \<and>
            control no_hsv dead_net addr on_request [] = (Resolved (), s1) \<and>
            getState dead_net addr s1 = (Rejected (Error ''Connection timeout''), ?log))"
    using built cmd by blast
  have times: "date example_env (ticks ?r + 2) = 1002" "date example_env (ticks ?r) = 1000"
    by (simp_all add: example_env_def example_registry_def)
  show ?thesis
    using known cmd times
      control_route_failure_marks_offline [OF known step, of example_env]
    by auto
qed

text \<open>
  When the awaited part of the brightness route resolves, as the code has it: the reply
  to set-brightness is not read (C2), so any reply lets it go on to the poll.
\<close>

lemma brightness_attempt_resolved:
  "brightness_attempt net device n sent = (Resolved st, sent') \<longleftrightarrow>
     brand device = Kasa \<and> 0 \<le> n \<and> n \<le> 100 \<and>
     (\<exists>reply. net sent (ip device, brightness_cmd n) = Resolved reply) \<and>
     (\<exists>info sys. net (sent @ [(ip device, brightness_cmd n)]) (ip device, get_sysinfo_cmd) =
                    Resolved info \<and>
        get_prop info ''system'' = Inr sys \<and> truthy (opt_prop sys ''get_sysinfo'') \<and>
        st = decode_state (opt_prop sys ''get_sysinfo'')) \<and>
     sent' = sent @ [(ip device, brightness_cmd n), (ip device, get_sysinfo_cmd)]"
  by (cases "brand device")
    (auto simp add: brightness_attempt_def getDeviceController_def setBrightness_def getState_def
      getDeviceInfo_def sendCommand_def io_bind_def io_throw_def io_return_def
      Let_def split: res.splits sum.splits)

lemma brightness_route_out_of_range:
  assumes "n < 0 \<or> 100 < n"
  shows "\<exists>resp r'. brightness_route net env r sent i (JNum n) = (Some resp, r', sent) \<and>
           \<not> success (body resp) \<and> devices r' = devices r \<and> writes r' = writes r"
proof (cases "getDevice r i")
  case None
  obtain resp r' where rj: "reject env r 404 ''Device not found'' = (resp, r')"
    by (cases "reject env r 404 ''Device not found''")
  then have "brightness_route net env r sent i (JNum n) = (Some resp, r', sent)"
    using None by (simp add: brightness_route_def)
  then show ?thesis
    using reject_no_exchange [OF rj] by blast
next
  case (Some device)
  show ?thesis
  proof (cases "CapBrightness \<in> set (capabilities device)")
    case True
    obtain resp r' where rj:
      "reject env r 400 ''Brightness level must be between 0 and 100'' = (resp, r')"
      by (cases "reject env r 400 ''Brightness level must be between 0 and 100''")
    then have "brightness_route net env r sent i (JNum n) = (Some resp, r', sent)"
      using Some True assms by (auto simp add: brightness_route_def valid_level_def)
    then show ?thesis
      using reject_no_exchange [OF rj] by blast
  next
    case False
    obtain resp r' where rj:
      "reject env r 400 ''Device does not support brightness control'' = (resp, r')"
      by (cases "reject env r 400 ''Device does not support brightness control''")
    then have "brightness_route net env r sent i (JNum n) = (Some resp, r', sent)"
      using Some False by (simp add: brightness_route_def)
    then show ?thesis
      using reject_no_exchange [OF rj] by blast
  qed
qed

lemma brightness_route_no_capability:
  assumes "getDevice r i = Some device" and "CapBrightness \<notin> set (capabilities device)"
  shows "\<exists>resp r'. brightness_route net env r sent i level = (Some resp, r', sent) \<and>
           status resp = 400 \<and> \<not> success (body resp) \<and>
           error (body resp) = Some ''Device does not support brightness control'' \<and>
           devices r' = devices r \<and> writes r' = writes r"
proof -
  obtain resp r' where rj:
    "reject env r 400 ''Device does not support brightness control'' = (resp, r')"
    by (cases "reject env r 400 ''Device does not support brightness control''")
  then have "brightness_route net env r sent i level = (Some resp, r', sent)"
    using assms by (simp add: brightness_route_def)
  then show ?thesis
    using reject_no_exchange [OF rj] by blast
qed

lemma brightness_route_succeeds:
  assumes known: "getDevice r i = Some device" and range: "0 \<le> n" "n \<le> 100"
  shows "(\<exists>resp r' sent'. brightness_route net env r sent i (JNum n) = (Some resp, r', sent') \<and>
            success (body resp)) \<longleftrightarrow>
         CapBrightness \<in> set (capabilities device) \<and>
         (\<exists>st sent'. brightness_attempt net device n sent = (Resolved st, sent'))"
proof (cases "CapBrightness \<in> set (capabilities device)")
  case False
  then show ?thesis
    using brightness_route_no_capability [OF known False, of net env sent "JNum n"] by auto
next
  case True
  have level: "valid_level (JNum n) = Some n"
    using range by (simp add: valid_level_def)
  obtain outcome sent1 where att: "brightness_attempt net device n sent = (outcome, sent1)"
    by (cases "brightness_attempt net device n sent")
  show ?thesis
  proof (cases outcome)
    case Pending
    then have "brightness_route net env r sent i (JNum n) = (None, r, sent1)"
      using known True level att by (simp add: brightness_route_def)
    then show ?thesis
      using True att Pending by simp
  next
    case (Rejected e)
    obtain resp r' where rf: "route_failed env r i e = (resp, r')"
      by (cases "route_failed env r i e")
    then have "brightness_route net env r sent i (JNum n) = (Some resp, r', sent1)"
      using known True level att Rejected by (simp add: brightness_route_def)
    then show ?thesis
      using route_failed_failure [OF rf] True att Rejected by simp
  next
    case (Resolved st)
    obtain resp r' where rs:
      "route_succeeded env r device st (BrightnessResult (name device) n st) = (resp, r')"
      by (cases "route_succeeded env r device st (BrightnessResult (name device) n st)")
    then have "brightness_route net env r sent i (JNum n) = (Some resp, r', sent1)"
      using known True level att Resolved by (simp add: brightness_route_def)
    then show ?thesis
      using route_succeeded_success [OF rs] True att Resolved by simp
  qed
qed

text \<open>
  C9. The claim: for a brightness in \<open>[0,100]\<close> the set-brightness call succeeds exactly
  when the device has the brightness capability. A device that has the capability and
  does not answer refutes it: the call fails with the answer 500.
\<close>

theorem brightness_route_counterexample:
  "CapBrightness \<in> set (capabilities desk_lamp) \<and>
   getDevice (example_registry [desk_lamp]) ''desk-1'' = Some desk_lamp \<and>
   fst (brightness_route dead_net example_env (example_registry [desk_lamp]) [] ''desk-1'' (JNum 50)) =
     Some \<lparr>status = 500,
           body = \<lparr>success = False, data = None, error = Some ''Connection timeout'',
                   timestamp = 1002\<rparr>\<rparr>"
  by (simp add: brightness_route_def brightness_attempt_def getDeviceController_def
      setBrightness_def sendCommand_def io_bind_def dead_net_def valid_level_def
      route_failed_def setDeviceOnlineStatus_def saveRegistry_def reject_def createResponse_def
      getDevice_def example_registry_def example_env_def desk_lamp_def example_device_def)

text \<open>
  C9, amended. A level outside \<open>[0,100]\<close> is refused with no exchange and no change of
  the registry's devices or writes. For a level in \<open>[0,100]\<close>, a fraction included, on a
  known device: without the brightness capability the call is refused with the
  validation error 400, again with no exchange. The call succeeds only if the device has
  the capability, its brand has an adapter, and the set-brightness exchange and the
  state poll after it both get a reply. It does succeed when, with all that, the reply to
  set-brightness reports no error and the reply to the poll holds the device information.
  Nothing is said of a reply to set-brightness that reports an error.
\<close>

theorem brightness_route_outcomes:
  "(n < 0 \<or> 100 < n \<longrightarrow>
      (\<exists>resp r'. brightness_route net env r sent i (JNum n) = (Some resp, r', sent) \<and>
         \<not> success (body resp) \<and> devices r' = devices r \<and> writes r' = writes r)) \<and>
   (\<forall>device. getDevice r i = Some device \<and> 0 \<le> n \<and> n \<le> 100 \<longrightarrow>
      (CapBrightness \<notin> set (capabilities device) \<longrightarrow>
         (\<exists>resp r'. brightness_route net env r sent i (JNum n) = (Some resp, r', sent) \<and>
            status resp = 400 \<and> \<not> success (body resp) \<and>
            error (body resp) = Some ''Device does not support brightness control'' \<and>
            devices r' = devices r \<and> writes r' = writes r)) \<and>
      ((\<exists>resp r' sent'. brightness_route net env r sent i (JNum n) = (Some resp, r', sent') \<and>
           success (body resp)) \<longrightarrow>
       CapBrightness \<in> set (capabilities device) \<and> brand device = Kasa \<and>
       (\<exists>reply. net sent (ip device, brightness_cmd n) = Resolved reply) \<and>
       (\<exists>info sys. net (sent @ [(ip device, brightness_cmd n)]) (ip device, get_sysinfo_cmd) =
                      Resolved info \<and>
          get_prop info ''system'' = Inr sys \<and> truthy (opt_prop sys ''get_sysinfo''))) \<and>
      (CapBrightness \<in> set (capabilities device) \<and> brand device = Kasa \<and>
       (\<exists>reply. net sent (ip device, brightness_cmd n) = Resolved reply \<and>
          light_accepted reply) \<and>
       (\<exists>info sys. net (sent @ [(ip device, brightness_cmd n)]) (ip device, get_sysinfo_cmd) =
                      Resolved info \<and>
          get_prop info ''system'' = Inr sys \<and> truthy (opt_prop sys ''get_sysinfo'')) \<longrightarrow>
       (\<exists>resp r' sent'. brightness_route net env r sent i (JNum n) = (Some resp, r', sent') \<and>
           success (body resp) \<and> status resp = 200)))"
proof -
  have attempt: "(\<exists>st sent'. brightness_attempt net device n sent = (Resolved st, sent')) \<longleftrightarrow>
       brand device = Kasa \<and>
       (\<exists>reply. net sent (ip device, brightness_cmd n) = Resolved reply) \<and>
       (\<exists>info sys. net (sent @ [(ip device, brightness_cmd n)]) (ip device, get_sysinfo_cmd) =
                      Resolved info \<and>
          get_prop info ''system'' = Inr sys \<and> truthy (opt_prop sys ''get_sysinfo''))"
    if "0 \<le> n" "n \<le> 100" for device
    unfolding brightness_attempt_resolved using that by blast
  have ok_200: "status resp = 200"
    if "getDevice r i = Some device"
      and "brightness_route net env r sent i (JNum n) = (Some resp, r', sent')"
      and "success (body resp)" for device resp r' sent'
    using that
    by (auto simp add: brightness_route_def reject_def createResponse_def route_failed_def
        route_succeeded_def split: if_splits option.splits prod.splits res.splits)
  have out: "n < 0 \<or> 100 < n \<longrightarrow>
      (\<exists>resp r'. brightness_route net env r sent i (JNum n) = (Some resp, r', sent) \<and>
         \<not> success (body resp) \<and> devices r' = devices r \<and> writes r' = writes r)"
    using brightness_route_out_of_range [where n = n and net = net and env = env and r = r
        and sent = sent and i = i]
    by blast
  have known: "(CapBrightness \<notin> set (capabilities device) \<longrightarrow>
         (\<exists>resp r'. brightness_route net env r sent i (JNum n) = (Some resp, r', sent) \<and>
            status resp = 400 \<and> \<not> success (body resp) \<and>
            error (body resp) = Some ''Device does not support brightness control'' \<and>
            devices r' = devices r \<and> writes r' = writes r)) \<and>
      ((\<exists>resp r' sent'. brightness_route net env r sent i (JNum n) = (Some resp, r', sent') \<and>
           success (body resp)) \<longrightarrow>
       CapBrightness \<in> set (capabilities device) \<and> brand device = Kasa \<and>
       (\<exists>reply. net sent (ip device, brightness_cmd n) = Resolved reply) \<and>
       (\<exists>info sys. net (sent @ [(ip device, brightness_cmd n)]) (ip device, get_sysinfo_cmd) =
                      Resolved info \<and>
          get_prop info ''system'' = Inr sys \<and> truthy (opt_prop sys ''get_sysinfo''))) \<and>
      (CapBrightness \<in> set (capabilities device) \<and> brand device = Kasa \<and>
       (\<exists>reply. net sent (ip device, brightness_cmd n) = Resolved reply \<and>
          light_accepted reply) \<and>
       (\<exists>info sys. net (sent @ [(ip device, brightness_cmd n)]) (ip device, get_sysinfo_cmd) =
                      Resolved info \<and>
          get_prop info ''system'' = Inr sys \<and> truthy (opt_prop sys ''get_sysinfo'')) \<longrightarrow>
       (\<exists>resp r' sent'. brightness_route net env r sent i (JNum n) = (Some resp, r', sent') \<and>
           success (body resp) \<and> status resp = 200))"
    if dev: "getDevice r i = Some device" and lo: "0 \<le> n" and hi: "n \<le> 100" for device
  proof (intro conjI impI)
    assume "CapBrightness \<notin> set (capabilities device)"
    then show "\<exists>resp r'. brightness_route net env r sent i (JNum n) = (Some resp, r', sent) \<and>
            status resp = 400 \<and> \<not> success (body resp) \<and>
            error (body resp) = Some ''Device does not support brightness control'' \<and>
            devices r' = devices r \<and> writes r' = writes r"
      using dev by (rule brightness_route_no_capability [rotated])
  next
    assume "\<exists>resp r' sent'. brightness_route net env r sent i (JNum n) = (Some resp, r', sent') \<and>
           success (body resp)"
    then have both: "CapBrightness \<in> set (capabilities device) \<and>
        (\<exists>st sent'. brightness_attempt net device n sent = (Resolved st, sent'))"
      using brightness_route_succeeds [OF dev lo hi, of net env sent] by blast
    then have "brand device = Kasa \<and>
       (\<exists>reply. net sent (ip device, brightness_cmd n) = Resolved reply) \<and>
       (\<exists>info sys. net (sent @ [(ip device, brightness_cmd n)]) (ip device, get_sysinfo_cmd) =
                      Resolved info \<and>
          get_prop info ''system'' = Inr sys \<and> truthy (opt_prop sys ''get_sysinfo''))"
      using attempt [OF lo hi, of device] by blast
    with both show "CapBrightness \<in> set (capabilities device)"
      and "brand device = Kasa"
      and "\<exists>reply. net sent (ip device, brightness_cmd n) = Resolved reply"
      and "\<exists>info sys. net (sent @ [(ip device, brightness_cmd n)]) (ip device, get_sysinfo_cmd) =
                      Resolved info \<and>
          get_prop info ''system'' = Inr sys \<and> truthy (opt_prop sys ''get_sysinfo'')"
      by blast+
  next
    assume given: "CapBrightness \<in> set (capabilities device) \<and> brand device = Kasa \<and>
       (\<exists>reply. net sent (ip device, brightness_cmd n) = Resolved reply \<and>
          light_accepted reply) \<and>
       (\<exists>info sys. net (sent @ [(ip device, brightness_cmd n)]) (ip device, get_sysinfo_cmd) =
                      Resolved info \<and>
          get_prop info ''system'' = Inr sys \<and> truthy (opt_prop sys ''get_sysinfo''))"
    then have "\<exists>st sent'. brightness_attempt net device n sent = (Resolved st, sent')"
      using attempt [OF lo hi, of device] by blast
    then obtain resp r' sent' where
      run: "brightness_route net env r sent i (JNum n) = (Some resp, r', sent')"
      and ok: "success (body resp)"
      using brightness_route_succeeds [OF dev lo hi, of net env sent] given by blast
    then show "\<exists>resp r' sent'. brightness_route net env r sent i (JNum n) = (Some resp, r', sent') \<and>
           success (body resp) \<and> status resp = 200"
      using ok_200 [OF dev run ok] by blast
  qed
  show ?thesis
    using out known by blast
qed

theorem brightness_route_outcomes_witness:
  "getDevice (example_registry [desk_lamp, floor_lamp]) ''desk-1'' = Some desk_lamp \<and>
   CapBrightness \<in> set (capabilities desk_lamp) \<and>
   light_accepted light_ok \<and>
   (\<exists>resp r' sent'.
      brightness_route bulb_net example_env (example_registry [desk_lamp, floor_lamp]) []
        ''desk-1'' (JNum (101 / 2)) = (Some resp, r', sent') \<and> success (body resp)) \<and>
   getDevice (example_registry [desk_lamp, floor_lamp]) ''floor-2'' = Some floor_lamp \<and>
   CapBrightness \<notin> set (capabilities floor_lamp) \<and>
   (\<exists>resp r'.
      brightness_route bulb_net example_env (example_registry [desk_lamp, floor_lamp]) []
        ''floor-2'' (JNum 50) = (Some resp, r', []) \<and> status resp = 400) \<and>
   (\<exists>resp r'.
      brightness_route bulb_net example_env (example_registry [desk_lamp, floor_lamp]) []
        ''desk-1'' (JNum 101) = (Some resp, r', []) \<and> \<not> success (body resp))"
proof -
  let ?r = "example_registry [desk_lamp, floor_lamp]"
  have desk: "getDevice ?r ''desk-1'' = Some desk_lamp"
    and floor: "getDevice ?r ''floor-2'' = Some floor_lamp"
    by (simp_all add: getDevice_def example_registry_def desk_lamp_def floor_lamp_def
        example_device_def)
  have caps: "CapBrightness \<in> set (capabilities desk_lamp)"
    "CapBrightness \<notin> set (capabilities floor_lamp)"
    by (simp_all add: desk_lamp_def floor_lamp_def example_device_def)
  have kasa: "brand desk_lamp = Kasa"
    by (simp add: desk_lamp_def example_device_def)
  have accepted: "light_accepted light_ok"
    by (simp add: light_accepted_def light_ok_def)
  have reply: "\<exists>reply. bulb_net [] (ip desk_lamp, brightness_cmd (101 / 2)) = Resolved reply \<and>
                 light_accepted reply"
    using accepted
    by (simp add: bulb_net_def brightness_cmd_def light_cmd_def get_sysinfo_cmd_def)
  have poll: "\<exists>info sys.
      bulb_net ([] @ [(ip desk_lamp, brightness_cmd (101 / 2))]) (ip desk_lamp, get_sysinfo_cmd) =
        Resolved info \<and>
      get_prop info ''system'' = Inr sys \<and> truthy (opt_prop sys ''get_sysinfo'')"
    by (simp add: bulb_net_def bulb_reply_def)
  have range: "(0 :: real) \<le> 101 / 2 \<and> (101 / 2 :: real) \<le> 100"
    by simp
  have ok: "\<exists>resp r' sent'. brightness_route bulb_net example_env ?r [] ''desk-1'' (JNum (101 / 2)) =
              (Some resp, r', sent') \<and> success (body resp)"
    using brightness_route_outcomes [where n = "101 / 2" and net = bulb_net and env = example_env
        and r = ?r and sent = "[]" and i = "''desk-1''"] desk caps(1) kasa reply poll range
    by blast
  have refused: "\<exists>resp r'. brightness_route bulb_net example_env ?r [] ''floor-2'' (JNum 50) =
              (Some resp, r', []) \<and> status resp = 400"
    using brightness_route_outcomes [where n = 50 and net = bulb_net and env = example_env
        and r = ?r and sent = "[]" and i = "''floor-2''"] floor caps(2)
    by auto
  have outside: "\<exists>resp r'. brightness_route bulb_net example_env ?r [] ''desk-1'' (JNum 101) =
              (Some resp, r', []) \<and> \<not> success (body resp)"
    using brightness_route_outcomes [where n = 101 and net = bulb_net and env = example_env
        and r = ?r and sent = "[]" and i = "''desk-1''"]
    by auto
  show ?thesis
    using desk floor caps accepted ok refused outside by blast
qed

end
